theory Spec2Isabelle
  imports Main
begin

section \<open>The addon manager of Pearl.addons.py\<close>

text \<open>
  The class \<open>AddonManager\<close> keeps three dictionaries keyed by addon name
  (\<open>loaded_addons\<close>, \<open>active_addons\<close>, \<open>addon_metadata\<close>) and drives addon
  modules through load, activate, deactivate and reload. The modules, the import
  machinery and the metadata files are outside the manager: they are modelled by a
  world of type \<open>'w\<close> that the calls into them read and change.
\<close>

subsection \<open>Python values and exceptions\<close>

text \<open>
  The data the manager looks at: what a JSON document or a module-level variable can
  hold. JSON numbers are integers here.
\<close>

datatype pyval =
    PyNone
  | PyBool bool
  | PyInt int
  | PyStr string
  | PyList "pyval list"
  | PyTuple "pyval list"
  | PyDict "(string \<times> pyval) list"

text \<open>
  \<open>hash(v)\<close> succeeds: a list and a dictionary cannot be hashed, a tuple can when
  its elements can.
\<close>

fun hashable :: "pyval \<Rightarrow> bool" where
  "hashable (PyList xs) = False"
| "hashable (PyDict kvs) = False"
| "hashable (PyTuple xs) = (\<forall>x \<in> set xs. hashable x)"
| "hashable PyNone = True"
| "hashable (PyBool b) = True"
| "hashable (PyInt i) = True"
| "hashable (PyStr n) = True"

text \<open>
  What Python code can raise. \<open>ImportError\<close> carries the dependency that the
  message of \<open>_check_dependencies\<close> names; \<open>OtherError\<close> is any other instance
  of \<open>Exception\<close> raised by a unit or by the host. The other messages are kept
  without the names that the source formats into them. \<open>SystemExit\<close> and
  \<open>KeyboardInterrupt\<close> derive from \<open>BaseException\<close> only: the handlers
  \<open>except Exception\<close> of the manager do not catch them.
\<close>

datatype exn =
    AttributeError string
  | ImportError pyval
  | ValueError string
  | TypeError string
  | KeyError string
  | JSONDecodeError
  | OtherError string
  | SystemExit
  | KeyboardInterrupt

text \<open>\<open>isinstance(e, Exception)\<close>.\<close>

fun is_exception :: "exn \<Rightarrow> bool" where
  "is_exception SystemExit = False"
| "is_exception KeyboardInterrupt = False"
| "is_exception (AttributeError m) = True"
| "is_exception (ImportError d) = True"
| "is_exception (ValueError m) = True"
| "is_exception (TypeError m) = True"
| "is_exception (KeyError k) = True"
| "is_exception JSONDecodeError = True"
| "is_exception (OtherError m) = True"

text \<open>
  An attribute of a module is a piece of data or a callable. A callable takes the
  positional and the keyword arguments, runs in the world and returns a value or
  raises. The manager hands no reference to itself to a unit, so a callable changes the
  world only, never the manager's dictionaries.
\<close>

type_synonym 'w capability =
  "pyval list \<Rightarrow> (string \<times> pyval) list \<Rightarrow> 'w \<Rightarrow> (exn + pyval) \<times> 'w"

datatype 'w pyobj =
    Data pyval
  | Callable "'w capability"

type_synonym 'w module = "string \<rightharpoonup> 'w pyobj"

type_synonym 'w metadata = "string \<rightharpoonup> 'w pyobj"

subsection \<open>The host: import machinery and metadata files\<close>

text \<open>
  What \<open>os.path.exists\<close>, \<open>open\<close>, \<open>json.load\<close> and \<open>metadata.update\<close>
  do with the file \<open><name>_metadata.json\<close>: there is no such file; or one of them
  raises; or the document is a JSON object and \<open>update\<close> stores its members in
  order.
\<close>

datatype file_outcome =
    NoFile
  | Raises exn
  | Fields "(string \<times> pyval) list"

record 'w host =
  import_module :: "string \<Rightarrow> 'w \<Rightarrow> (exn + 'w module) \<times> 'w"
  metadata_file :: "string \<Rightarrow> 'w \<Rightarrow> file_outcome"

subsection \<open>The manager's state and its log\<close>

datatype message =
    AlreadyLoaded string
  | LoadedOk string
  | LoadFailed string exn
  | InvalidMetadataFile string
  | CannotActivate string
  | AlreadyActive string
  | ActivatedOk string
  | ActivateFailed string exn
  | NotActive string
  | DeactivatedOk string
  | DeactivateFailed string exn
  | CannotReload string

datatype log_entry = Info message | Warning message | Error message

record 'w state =
  loaded_addons :: "string \<rightharpoonup> 'w module"
  active_addons :: "string \<rightharpoonup> 'w module"
  addon_metadata :: "string \<rightharpoonup> 'w metadata"
  logged :: "log_entry list"
  world :: 'w

definition init :: "'w \<Rightarrow> 'w state" where
  "init w = \<lparr>loaded_addons = Map.empty, active_addons = Map.empty,
     addon_metadata = Map.empty, logged = [], world = w\<rparr>"

definition emit :: "log_entry \<Rightarrow> 'w state \<Rightarrow> 'w state" where
  "emit e s = s\<lparr>logged := logged s @ [e]\<rparr>"

text \<open>
  The handler \<open>except Exception as e: logger.error(...); return False\<close> of
  \<open>load_addon\<close>, \<open>activate_addon\<close> and \<open>deactivate_addon\<close>. The result of
  an operation is \<open>Inr b\<close> when it returns \<open>b\<close> and \<open>Inl e\<close> when the
  exception \<open>e\<close> leaves it.
\<close>

definition except_Exception ::
  "(exn \<Rightarrow> message) \<Rightarrow> exn \<Rightarrow> 'w state \<Rightarrow> (exn + bool) \<times> 'w state" where
  "except_Exception msg e s =
     (if is_exception e then (Inr False, emit (Error (msg e)) s) else (Inl e, s))"

text \<open>The three dictionaries, which the spec calls the registry.\<close>

definition registry ::
  "'w state \<Rightarrow> (string \<rightharpoonup> 'w module) \<times> (string \<rightharpoonup> 'w module) \<times> (string \<rightharpoonup> 'w metadata)" where
  "registry s = (loaded_addons s, active_addons s, addon_metadata s)"

subsection \<open>Attribute access\<close>

text \<open>\<open>getattr(m, n, d)\<close>.\<close>

definition getattr_default :: "'w module \<Rightarrow> string \<Rightarrow> 'w pyobj \<Rightarrow> 'w pyobj" where
  "getattr_default m n d = (case m n of None \<Rightarrow> d | Some v \<Rightarrow> v)"

text \<open>\<open>hasattr(m, n) and callable(getattr(m, n))\<close>.\<close>

definition has_callable :: "'w module \<Rightarrow> string \<Rightarrow> bool" where
  "has_callable m n = (case m n of None \<Rightarrow> False | Some (Data v) \<Rightarrow> False | Some (Callable f) \<Rightarrow> True)"

text \<open>
  \<open>m.n(*args, **kwargs)\<close>: the attribute is looked up, then called. A missing
  attribute raises \<open>AttributeError\<close>, a value that is not callable raises
  \<open>TypeError\<close>.
\<close>

definition call_attr ::
  "'w module \<Rightarrow> string \<Rightarrow> pyval list \<Rightarrow> (string \<times> pyval) list \<Rightarrow> 'w \<Rightarrow> (exn + pyval) \<times> 'w" where
  "call_attr m n args kwargs w =
     (case m n of
        None \<Rightarrow> (Inl (AttributeError n), w)
      | Some (Data v) \<Rightarrow> (Inl (TypeError ''object is not callable''), w)
      | Some (Callable f) \<Rightarrow> f args kwargs w)"

subsection \<open>Metadata resolution: \<open>_load_addon_metadata\<close>\<close>

fun dict_update :: "'w metadata \<Rightarrow> (string \<times> pyval) list \<Rightarrow> 'w metadata" where
  "dict_update md [] = md"
| "dict_update md ((k, v) # kvs) = dict_update (md(k \<mapsto> Data v)) kvs"

definition unit_metadata :: "string \<Rightarrow> 'w module \<Rightarrow> 'w metadata" where
  "unit_metadata addon_name addon_module =
     [''name'' \<mapsto> Data (PyStr addon_name),
      ''version'' \<mapsto> getattr_default addon_module ''__version__'' (Data (PyStr ''Unknown'')),
      ''author'' \<mapsto> getattr_default addon_module ''__author__'' (Data (PyStr ''Unknown'')),
      ''description'' \<mapsto>
         getattr_default addon_module ''__doc__'' (Data (PyStr ''No description provided.'')),
      ''dependencies'' \<mapsto> getattr_default addon_module ''__dependencies__'' (Data (PyList []))]"

text \<open>
  Only \<open>json.JSONDecodeError\<close> is handled, with a warning; any other exception
  leaves the function.
\<close>

definition load_addon_metadata ::
  "'w host \<Rightarrow> string \<Rightarrow> 'w module \<Rightarrow> 'w state \<Rightarrow> (exn + 'w metadata) \<times> 'w state" where
  "load_addon_metadata h addon_name addon_module s =
     (let metadata = unit_metadata addon_name addon_module in
      case metadata_file h addon_name (world s) of
        NoFile \<Rightarrow> (Inr metadata, s)
      | Fields file_metadata \<Rightarrow> (Inr (dict_update metadata file_metadata), s)
      | Raises e \<Rightarrow>
          (if e = JSONDecodeError
           then (Inr metadata, emit (Warning (InvalidMetadataFile addon_name)) s)
           else (Inl e, s)))"

subsection \<open>\<open>load_addon\<close>\<close>

definition load_addon :: "'w host \<Rightarrow> string \<Rightarrow> 'w state \<Rightarrow> (exn + bool) \<times> 'w state" where
  "load_addon h addon_name s =
     (if loaded_addons s addon_name \<noteq> None
      then (Inr False, emit (Warning (AlreadyLoaded addon_name)) s)
      else
        (case import_module h addon_name (world s) of
          (Inl e, w) \<Rightarrow> except_Exception (LoadFailed addon_name) e (s\<lparr>world := w\<rparr>)
        | (Inr addon_module, w) \<Rightarrow>
            if \<not> has_callable addon_module ''initialize''
            then except_Exception (LoadFailed addon_name)
                   (AttributeError ''Addon must have an initialize function.'') (s\<lparr>world := w\<rparr>)
            else if \<not> has_callable addon_module ''shutdown''
            then except_Exception (LoadFailed addon_name)
                   (AttributeError ''Addon must have a shutdown function.'') (s\<lparr>world := w\<rparr>)
            else
              (case load_addon_metadata h addon_name addon_module (s\<lparr>world := w\<rparr>) of
                 (Inl e, s') \<Rightarrow> except_Exception (LoadFailed addon_name) e s'
               | (Inr metadata, s') \<Rightarrow>
                   (Inr True, emit (Info (LoadedOk addon_name))
                      (s'\<lparr>addon_metadata := (addon_metadata s')(addon_name \<mapsto> metadata),
                          loaded_addons := (loaded_addons s')(addon_name \<mapsto> addon_module)\<rparr>)))))"

subsection \<open>Dependencies: \<open>_check_dependencies\<close>\<close>

text \<open>
  \<open>for dep in dependencies\<close>: a list or a tuple yields its elements, a string its
  characters, a dictionary its keys; anything else is not iterable.
\<close>

fun py_iter :: "'w pyobj \<Rightarrow> exn + pyval list" where
  "py_iter (Data (PyList xs)) = Inr xs"
| "py_iter (Data (PyTuple xs)) = Inr xs"
| "py_iter (Data (PyStr cs)) = Inr (map (\<lambda>c. PyStr [c]) cs)"
| "py_iter (Data (PyDict kvs)) = Inr (map (\<lambda>kv. PyStr (fst kv)) kvs)"
| "py_iter (Data PyNone) = Inl (TypeError ''object is not iterable'')"
| "py_iter (Data (PyBool b)) = Inl (TypeError ''object is not iterable'')"
| "py_iter (Data (PyInt i)) = Inl (TypeError ''object is not iterable'')"
| "py_iter (Callable f) = Inl (TypeError ''object is not iterable'')"

text \<open>
  \<open>dep in self.active_addons\<close>: a value that cannot be hashed raises
  \<open>TypeError\<close>; the keys are strings, so of the other values only a string can be
  found.
\<close>

definition py_in :: "pyval \<Rightarrow> (string \<rightharpoonup> 'a) \<Rightarrow> exn + bool" where
  "py_in v d =
     (if \<not> hashable v then Inl (TypeError ''unhashable type'')
      else (case v of PyStr n \<Rightarrow> Inr (d n \<noteq> None) | _ \<Rightarrow> Inr False))"

fun check_each :: "pyval list \<Rightarrow> (string \<rightharpoonup> 'a) \<Rightarrow> exn + unit" where
  "check_each [] active = Inr ()"
| "check_each (dep # deps) active =
     (case py_in dep active of
        Inl e \<Rightarrow> Inl e
      | Inr True \<Rightarrow> check_each deps active
      | Inr False \<Rightarrow> Inl (ImportError dep))"

text \<open>\<open>metadata.get("dependencies", [])\<close>.\<close>

definition declared_dependencies :: "'w metadata \<Rightarrow> 'w pyobj" where
  "declared_dependencies md =
     (case md ''dependencies'' of None \<Rightarrow> Data (PyList []) | Some v \<Rightarrow> v)"

definition check_dependencies :: "string \<Rightarrow> 'w state \<Rightarrow> exn + unit" where
  "check_dependencies addon_name s =
     (case addon_metadata s addon_name of
        None \<Rightarrow> Inl (KeyError addon_name)
      | Some md \<Rightarrow>
          (case py_iter (declared_dependencies md) of
             Inl e \<Rightarrow> Inl e
           | Inr dependencies \<Rightarrow> check_each dependencies (active_addons s)))"

subsection \<open>\<open>activate_addon\<close> and \<open>deactivate_addon\<close>\<close>

definition activate_addon :: "string \<Rightarrow> 'w state \<Rightarrow> (exn + bool) \<times> 'w state" where
  "activate_addon addon_name s =
     (case loaded_addons s addon_name of
        None \<Rightarrow> (Inr False, emit (Error (CannotActivate addon_name)) s)
      | Some addon_module \<Rightarrow>
          if active_addons s addon_name \<noteq> None
          then (Inr False, emit (Warning (AlreadyActive addon_name)) s)
          else
            (case check_dependencies addon_name s of
               Inl e \<Rightarrow> except_Exception (ActivateFailed addon_name) e s
             | Inr u \<Rightarrow>
                 (case call_attr addon_module ''initialize'' [] [] (world s) of
                    (Inl e, w) \<Rightarrow>
                      except_Exception (ActivateFailed addon_name) e (s\<lparr>world := w\<rparr>)
                  | (Inr r, w) \<Rightarrow>
                      (Inr True, emit (Info (ActivatedOk addon_name))
                         (s\<lparr>world := w,
                            active_addons := (active_addons s)(addon_name \<mapsto> addon_module)\<rparr>)))))"

definition deactivate_addon :: "string \<Rightarrow> 'w state \<Rightarrow> (exn + bool) \<times> 'w state" where
  "deactivate_addon addon_name s =
     (case active_addons s addon_name of
        None \<Rightarrow> (Inr False, emit (Warning (NotActive addon_name)) s)
      | Some addon_module \<Rightarrow>
          (case call_attr addon_module ''shutdown'' [] [] (world s) of
             (Inl e, w) \<Rightarrow>
               except_Exception (DeactivateFailed addon_name) e (s\<lparr>world := w\<rparr>)
           | (Inr r, w) \<Rightarrow>
               (Inr True, emit (Info (DeactivatedOk addon_name))
                  (s\<lparr>world := w, active_addons := (active_addons s)(addon_name := None)\<rparr>))))"

subsection \<open>\<open>reload_addon\<close>\<close>

text \<open>
  The value that \<open>deactivate_addon\<close> returns is not looked at; an exception that
  leaves \<open>deactivate_addon\<close>, \<open>load_addon\<close> or \<open>activate_addon\<close> leaves
  \<open>reload_addon\<close> too. The two \<open>del\<close> statements are outside any handler:
  \<open>del self.addon_metadata[addon_name]\<close> raises \<open>KeyError\<close> to the caller when
  the name has no metadata.
\<close>

definition reload_addon :: "'w host \<Rightarrow> string \<Rightarrow> 'w state \<Rightarrow> (exn + bool) \<times> 'w state" where
  "reload_addon h addon_name s =
     (if loaded_addons s addon_name = None
      then (Inr False, emit (Error (CannotReload addon_name)) s)
      else
        let was_active = (active_addons s addon_name \<noteq> None) in
        (case (if was_active then deactivate_addon addon_name s else (Inr False, s)) of
           (Inl e, s1) \<Rightarrow> (Inl e, s1)
         | (Inr ignored, s1) \<Rightarrow>
             let s2 = s1\<lparr>loaded_addons := (loaded_addons s1)(addon_name := None)\<rparr> in
             if addon_metadata s2 addon_name = None then (Inl (KeyError addon_name), s2)
             else
               let s3 = s2\<lparr>addon_metadata := (addon_metadata s2)(addon_name := None)\<rparr> in
               (case load_addon h addon_name s3 of
                  (Inl e, s4) \<Rightarrow> (Inl e, s4)
                | (Inr True, s4) \<Rightarrow>
                    (if was_active then activate_addon addon_name s4 else (Inr True, s4))
                | (Inr False, s4) \<Rightarrow> (Inr False, s4))))"

subsection \<open>\<open>execute_addon_function\<close>\<close>

definition execute_addon_function ::
  "string \<Rightarrow> string \<Rightarrow> pyval list \<Rightarrow> (string \<times> pyval) list \<Rightarrow> 'w state \<Rightarrow> (exn + pyval) \<times> 'w state" where
  "execute_addon_function addon_name function_name args kwargs s =
     (case active_addons s addon_name of
        None \<Rightarrow> (Inl (ValueError ''Addon is not active.''), s)
      | Some addon_module \<Rightarrow>
          (case addon_module function_name of
             None \<Rightarrow> (Inl (AttributeError ''Function not found in addon.''), s)
           | Some function \<Rightarrow>
               (case function of
                  Data v \<Rightarrow> (Inl (TypeError ''object is not callable''), s)
                | Callable f \<Rightarrow>
                    (case f args kwargs (world s) of (r, w) \<Rightarrow> (r, s\<lparr>world := w\<rparr>)))))"

subsection \<open>Sequences of operations\<close>

datatype operation = Load string | Activate string | Deactivate string | Reload string

text \<open>
  The state after an operation, whether it returned or raised: the caller may catch
  what leaves an operation and go on.
\<close>

fun perform :: "'w host \<Rightarrow> operation \<Rightarrow> 'w state \<Rightarrow> 'w state" where
  "perform h (Load n) s = snd (load_addon h n s)"
| "perform h (Activate n) s = snd (activate_addon n s)"
| "perform h (Deactivate n) s = snd (deactivate_addon n s)"
| "perform h (Reload n) s = snd (reload_addon h n s)"

fun run :: "'w host \<Rightarrow> operation list \<Rightarrow> 'w state \<Rightarrow> 'w state" where
  "run h [] s = s"
| "run h (x # xs) s = run h xs (perform h x s)"

subsection \<open>Notions used in the statements\<close>

text \<open>A dependency is active when \<open>dep in self.active_addons\<close> is true.\<close>

definition is_active :: "'w state \<Rightarrow> pyval \<Rightarrow> bool" where
  "is_active s dep = (py_in dep (active_addons s) = Inr True)"

text \<open>
  The addon has metadata, its declared dependencies can be iterated, and each of them is
  active.
\<close>

definition dependencies_active :: "'w state \<Rightarrow> string \<Rightarrow> bool" where
  "dependencies_active s n =
     (case addon_metadata s n of
        None \<Rightarrow> False
      | Some md \<Rightarrow>
          (case py_iter (declared_dependencies md) of
             Inl e \<Rightarrow> False
           | Inr deps \<Rightarrow> list_all (is_active s) deps))"

text \<open>
  The first declared dependency of the addon, in declaration order, that is not active.
\<close>

definition first_unsatisfied :: "'w state \<Rightarrow> string \<Rightarrow> pyval option" where
  "first_unsatisfied s n =
     (case addon_metadata s n of
        None \<Rightarrow> None
      | Some md \<Rightarrow>
          (case py_iter (declared_dependencies md) of
             Inl e \<Rightarrow> None
           | Inr deps \<Rightarrow> find (\<lambda>d. \<not> is_active s d) deps))"

text \<open>
  What \<open>for dep in dependencies\<close> raises for the addon: nothing when the declared
  dependencies can be iterated, \<open>KeyError\<close> when the addon has no metadata.
\<close>

definition iteration_error :: "'w state \<Rightarrow> string \<Rightarrow> exn option" where
  "iteration_error s n =
     (case addon_metadata s n of
        None \<Rightarrow> Some (KeyError n)
      | Some md \<Rightarrow>
          (case py_iter (declared_dependencies md) of
             Inl e \<Rightarrow> Some e
           | Inr deps \<Rightarrow> None))"

text \<open>
  What the loop of \<open>_check_dependencies\<close> raises at a dependency that is not
  active: the \<open>ImportError\<close> that names it, or \<open>TypeError\<close> when the
  membership test cannot hash it.
\<close>

definition dependency_error :: "pyval \<Rightarrow> exn" where
  "dependency_error d = (if hashable d then ImportError d else TypeError ''unhashable type'')"

text \<open>The dependencies that the loop of \<open>_check_dependencies\<close> walks contain the name.\<close>

definition declares_itself :: "string \<Rightarrow> 'w metadata \<Rightarrow> bool" where
  "declares_itself n md =
     (case py_iter (declared_dependencies md) of
        Inl e \<Rightarrow> False
      | Inr deps \<Rightarrow> PyStr n \<in> set deps)"

text \<open>The addon is not active, and its metadata, if it has any, declares the addon itself.\<close>

definition self_blocked :: "string \<Rightarrow> 'w state \<Rightarrow> bool" where
  "self_blocked n s =
     (active_addons s n = None \<and>
      (case addon_metadata s n of None \<Rightarrow> True | Some md \<Rightarrow> declares_itself n md))"

text \<open>
  A host under which every successful metadata resolution for the name yields
  dependencies that contain the name.
\<close>

definition always_declares_itself :: "'w host \<Rightarrow> string \<Rightarrow> bool" where
  "always_declares_itself h n =
     (\<forall>s m w md.
        import_module h n (world s) = (Inr m, w) \<and>
        fst (load_addon_metadata h n m (s\<lparr>world := w\<rparr>)) = Inr md
        \<longrightarrow> declares_itself n md)"

text \<open>Every loaded name has metadata.\<close>

definition loaded_has_metadata :: "'w state \<Rightarrow> bool" where
  "loaded_has_metadata s = (dom (loaded_addons s) \<subseteq> dom (addon_metadata s))"

text \<open>
  Every active name is loaded and every loaded name has metadata.
\<close>

definition consistent :: "'w state \<Rightarrow> bool" where
  "consistent s =
     (dom (active_addons s) \<subseteq> dom (loaded_addons s) \<and>
      dom (loaded_addons s) \<subseteq> dom (addon_metadata s))"

subsection \<open>Example units\<close>

text \<open>
  A small addon directory for concrete runs. The world is a counter: an import adds
  one, a call of a capability adds ten, also when the capability raises. Every unit has
  the attribute \<open>__doc__\<close>, which Python binds on each module and sets to \<open>None\<close>
  when the file has no docstring.
  \<^item> \<open>A\<close> has no dependencies; its metadata file is not valid JSON.
  \<^item> \<open>B\<close> depends on \<open>A\<close>; its metadata file gives a version.
  \<^item> \<open>broken\<close> has an \<open>initialize\<close> that raises.
  \<^item> \<open>stubborn\<close> has a \<open>shutdown\<close> that raises; after its first import its
    metadata file holds a number, so that \<open>metadata.update\<close> raises.
  \<^item> \<open>selfish\<close> depends on \<open>A\<close> and on itself.
  \<^item> \<open>odd\<close> declares the dependencies \<open>[[], "odd"]\<close>.
  \<^item> \<open>void\<close> has a metadata file with \<open>"dependencies": null\<close>.
  \<^item> \<open>headless\<close> has no \<open>initialize\<close>.
  \<^item> \<open>plain\<close> has no dependencies and no metadata file.
  \<^item> \<open>quitter\<close> has an \<open>initialize\<close> that calls \<open>sys.exit()\<close>.
  \<^item> \<open>exiting\<close> calls \<open>sys.exit()\<close> when it is imported.
\<close>

definition returns_none :: "nat capability" where
  "returns_none args kwargs w = (Inr PyNone, w + 10)"

definition raises_error :: "nat capability" where
  "raises_error args kwargs w = (Inl (OtherError ''RuntimeError''), w + 10)"

definition exits :: "nat capability" where
  "exits args kwargs w = (Inl SystemExit, w + 10)"

definition example_unit :: "nat capability \<Rightarrow> nat capability \<Rightarrow> pyval list \<Rightarrow> nat module" where
  "example_unit i sh deps =
     [''__doc__'' \<mapsto> Data PyNone, ''__dependencies__'' \<mapsto> Data (PyList deps),
      ''initialize'' \<mapsto> Callable i, ''shutdown'' \<mapsto> Callable sh]"

definition example_units :: "string \<Rightarrow> exn + nat module" where
  "example_units n =
     (if n = ''A'' then Inr (example_unit returns_none returns_none [])
      else if n = ''B'' then Inr (example_unit returns_none returns_none [PyStr ''A''])
      else if n = ''broken'' then Inr (example_unit raises_error returns_none [])
      else if n = ''stubborn'' then Inr (example_unit returns_none raises_error [])
      else if n = ''selfish'' then
        Inr (example_unit returns_none returns_none [PyStr ''A'', PyStr ''selfish''])
      else if n = ''odd'' then
        Inr (example_unit returns_none returns_none [PyList [], PyStr ''odd''])
      else if n = ''void'' then Inr (example_unit returns_none returns_none [])
      else if n = ''headless'' then
        Inr [''__doc__'' \<mapsto> Data PyNone, ''shutdown'' \<mapsto> Callable returns_none]
      else if n = ''plain'' then Inr (example_unit returns_none returns_none [])
      else if n = ''quitter'' then Inr (example_unit exits returns_none [])
      else if n = ''exiting'' then Inl SystemExit
      else Inl (OtherError ''ModuleNotFoundError''))"

definition example_files :: "string \<Rightarrow> nat \<Rightarrow> file_outcome" where
  "example_files n w =
     (if n = ''stubborn'' \<and> 1 < w then Raises (TypeError ''int object is not iterable'')
      else if n = ''A'' then Raises JSONDecodeError
      else if n = ''B'' then Fields [(''version'', PyStr ''2.0'')]
      else if n = ''void'' then Fields [(''dependencies'', PyNone)]
      else NoFile)"

definition example_host :: "nat host" where
  "example_host =
     \<lparr>import_module = (\<lambda>n w. (example_units n, Suc w)), metadata_file = example_files\<rparr>"

text \<open>The same directory after every metadata file has been removed.\<close>

definition repaired_host :: "nat host" where
  "repaired_host = example_host\<lparr>metadata_file := (\<lambda>n w. NoFile)\<rparr>"

section \<open>Properties\<close>

lemmas example_defs = returns_none_def raises_error_def exits_def example_unit_def
  example_units_def example_files_def example_host_def repaired_host_def init_def

lemmas manager_defs = load_addon_def activate_addon_def deactivate_addon_def reload_addon_def
  load_addon_metadata_def unit_metadata_def check_dependencies_def declared_dependencies_def
  has_callable_def call_attr_def getattr_default_def emit_def registry_def Let_def
  except_Exception_def py_in_def

subsection \<open>Frame lemmas\<close>

lemma registry_emit: "registry (emit e s) = registry s"
  by (simp add: registry_def emit_def)

lemma world_emit: "world (emit e s) = world s"
  by (simp add: emit_def)

lemma registry_world_update: "registry (s\<lparr>world := w\<rparr>) = registry s"
  by (simp add: registry_def)


lemma except_Exception_frame:
  "registry (snd (except_Exception msg e s)) = registry s \<and>
   world (snd (except_Exception msg e s)) = world s"
  by (simp add: except_Exception_def registry_emit world_emit)

lemma except_Exception_not_True: "fst (except_Exception msg e s) \<noteq> Inr True"
  by (simp add: except_Exception_def)

lemma load_addon_metadata_frame:
  "load_addon_metadata h n m s = (r, s') \<Longrightarrow> registry s' = registry s \<and> world s' = world s"
  by (auto simp: load_addon_metadata_def Let_def registry_emit world_emit
      split: file_outcome.splits if_splits)

text \<open>The outcomes of \<open>load_addon\<close> for a name that is not loaded.\<close>

lemma load_addon_import_raises:
  assumes "loaded_addons s n = None" and "import_module h n (world s) = (Inl e, w)"
  shows "load_addon h n s = except_Exception (LoadFailed n) e (s\<lparr>world := w\<rparr>)"
  using assms by (simp add: load_addon_def)

lemma load_addon_no_initialize:
  assumes "loaded_addons s n = None" and "import_module h n (world s) = (Inr m, w)"
    and "\<not> has_callable m ''initialize''"
  shows "load_addon h n s = except_Exception (LoadFailed n)
           (AttributeError ''Addon must have an initialize function.'') (s\<lparr>world := w\<rparr>)"
  using assms by (simp add: load_addon_def)

lemma load_addon_no_shutdown:
  assumes "loaded_addons s n = None" and "import_module h n (world s) = (Inr m, w)"
    and "has_callable m ''initialize''" and "\<not> has_callable m ''shutdown''"
  shows "load_addon h n s = except_Exception (LoadFailed n)
           (AttributeError ''Addon must have a shutdown function.'') (s\<lparr>world := w\<rparr>)"
  using assms by (simp add: load_addon_def)

lemma load_addon_metadata_raises:
  assumes "loaded_addons s n = None" and "import_module h n (world s) = (Inr m, w)"
    and "has_callable m ''initialize''" and "has_callable m ''shutdown''"
    and "load_addon_metadata h n m (s\<lparr>world := w\<rparr>) = (Inl e, s')"
  shows "load_addon h n s = except_Exception (LoadFailed n) e s'"
  using assms by (simp add: load_addon_def)

lemma load_addon_registers:
  assumes "loaded_addons s n = None" and "import_module h n (world s) = (Inr m, w)"
    and "has_callable m ''initialize''" and "has_callable m ''shutdown''"
    and "load_addon_metadata h n m (s\<lparr>world := w\<rparr>) = (Inr md, s')"
  shows "load_addon h n s = (Inr True, emit (Info (LoadedOk n))
           (s'\<lparr>addon_metadata := (addon_metadata s')(n \<mapsto> md),
               loaded_addons := (loaded_addons s')(n \<mapsto> m)\<rparr>))"
  using assms by (simp add: load_addon_def)

lemma load_addon_failure_frame:
  assumes "fst (load_addon h n s) \<noteq> Inr True"
  shows "registry (snd (load_addon h n s)) = registry s"
proof (cases "loaded_addons s n")
  case (Some m)
  then show ?thesis by (simp add: load_addon_def registry_emit)
next
  case None
  obtain r w where imp: "import_module h n (world s) = (r, w)"
    by (cases "import_module h n (world s)")
  show ?thesis
  proof (cases r)
    case (Inl e)
    with None imp show ?thesis
      by (simp add: load_addon_import_raises except_Exception_frame registry_world_update)
  next
    case (Inr m)
    show ?thesis
    proof (cases "has_callable m ''initialize''")
      case False
      with None imp Inr show ?thesis
        by (simp add: load_addon_no_initialize except_Exception_frame registry_world_update)
    next
      case i: True
      show ?thesis
      proof (cases "has_callable m ''shutdown''")
        case False
        with None imp Inr i show ?thesis
          by (simp add: load_addon_no_shutdown except_Exception_frame registry_world_update)
      next
        case sh: True
        obtain q s' where res: "load_addon_metadata h n m (s\<lparr>world := w\<rparr>) = (q, s')"
          by (cases "load_addon_metadata h n m (s\<lparr>world := w\<rparr>)")
        have fr: "registry s' = registry s"
          using load_addon_metadata_frame [OF res] by (simp add: registry_world_update)
        show ?thesis
        proof (cases q)
          case (Inl e)
          with None imp Inr i sh res fr show ?thesis
            by (simp add: load_addon_metadata_raises except_Exception_frame)
        next
          case md: (Inr md)
          with None imp Inr i sh res have "fst (load_addon h n s) = Inr True"
            by (simp add: load_addon_registers)
          with assms show ?thesis by simp
        qed
      qed
    qed
  qed
qed

subsection \<open>Failing capabilities\<close>




subsection \<open>Loading\<close>




text \<open>
  C6. The claim says that \<open>load_addon\<close> on an identifier that is loaded or active
  returns \<open>False\<close>, imports nothing and leaves the registry as it is. The guard of
  \<open>load_addon\<close> looks at \<open>loaded_addons\<close> only, and \<open>reload_addon\<close>, which
  ignores a failed deactivation, can leave an addon active without being loaded. After
  load, activate, reload of \<open>stubborn\<close> the addon is active; once its metadata file
  has been removed, \<open>load_addon\<close> imports the module again (the world goes from 22
  to 23), returns \<open>True\<close> and registers a loaded unit and metadata.
\<close>

theorem load_of_active_addon_imports_again:
  "active_addons
      (run example_host [Load ''stubborn'', Activate ''stubborn'', Reload ''stubborn''] (init 0))
      ''stubborn'' \<noteq> None
   \<and> world
      (run example_host [Load ''stubborn'', Activate ''stubborn'', Reload ''stubborn''] (init 0))
      = 22
   \<and> fst (load_addon repaired_host ''stubborn''
      (run example_host [Load ''stubborn'', Activate ''stubborn'', Reload ''stubborn''] (init 0)))
      = Inr True
   \<and> world (snd (load_addon repaired_host ''stubborn''
      (run example_host [Load ''stubborn'', Activate ''stubborn'', Reload ''stubborn''] (init 0))))
      = 23
   \<and> loaded_addons
      (run example_host [Load ''stubborn'', Activate ''stubborn'', Reload ''stubborn''] (init 0))
      ''stubborn'' = None
   \<and> loaded_addons (snd (load_addon repaired_host ''stubborn''
      (run example_host [Load ''stubborn'', Activate ''stubborn'', Reload ''stubborn''] (init 0))))
      ''stubborn'' \<noteq> None
   \<and> fst (load_addon example_host ''stubborn''
      (run example_host [Load ''stubborn'', Activate ''stubborn'', Reload ''stubborn''] (init 0)))
      = Inr False
   \<and> world (snd (load_addon example_host ''stubborn''
      (run example_host [Load ''stubborn'', Activate ''stubborn'', Reload ''stubborn''] (init 0))))
      = 23"
  by (simp add: example_defs manager_defs)

text \<open>
  For a name that is in \<open>loaded_addons\<close> (active or not), \<open>load_addon\<close> returns
  \<open>False\<close>, the three dictionaries and the world are as before, and the result is the
  same for every host: nothing is imported and no metadata is resolved.
\<close>

theorem duplicate_load_rejected:
  assumes "loaded_addons s n \<noteq> None"
  shows "fst (load_addon h n s) = Inr False
       \<and> registry (snd (load_addon h n s)) = registry s
       \<and> world (snd (load_addon h n s)) = world s
       \<and> (\<forall>h'. load_addon h' n s = load_addon h n s)"
  using assms by (simp add: load_addon_def registry_emit world_emit)

theorem duplicate_load_rejected_witness:
  "loaded_addons (run example_host [Load ''B''] (init 0)) ''B'' \<noteq> None
   \<and> fst (load_addon example_host ''B'' (run example_host [Load ''B''] (init 0))) = Inr False
   \<and> registry (snd (load_addon example_host ''B'' (run example_host [Load ''B''] (init 0))))
       = registry (run example_host [Load ''B''] (init 0))
   \<and> world (snd (load_addon example_host ''B'' (run example_host [Load ''B''] (init 0))))
       = world (run example_host [Load ''B''] (init 0))
   \<and> (\<forall>h'. load_addon h' ''B'' (run example_host [Load ''B''] (init 0))
          = load_addon example_host ''B'' (run example_host [Load ''B''] (init 0)))"
proof -
  have a: "loaded_addons (run example_host [Load ''B''] (init 0)) ''B'' \<noteq> None"
    by (simp add: example_defs manager_defs)
  from a duplicate_load_rejected [OF a, of example_host]
  show ?thesis by blast
qed

subsection \<open>Metadata resolution\<close>

lemma dict_update_lookup:
  "dict_update md kvs k =
     (case map_of (rev kvs) k of None \<Rightarrow> md k | Some v \<Rightarrow> Some (Data v))"
proof (induction kvs arbitrary: md)
  case Nil
  show ?case by simp
next
  case (Cons kv kvs)
  obtain a b where kv: "kv = (a, b)"
    by (cases kv)
  show ?case
    unfolding kv by (simp add: Cons.IH map_add_def split: option.splits)
qed

text \<open>
  What \<open>_load_addon_metadata\<close> returns. Without a metadata file the result is the
  unit's own metadata. A file that is not valid JSON gives the same result and a warning,
  and the load succeeds. The members of a JSON object override the unit's fields, the last
  occurrence of a key winning. A unit without \<open>__version__\<close>, \<open>__author__\<close> or
  \<open>__dependencies__\<close> gets \<open>Unknown\<close>, \<open>Unknown\<close> and the empty list.
\<close>

theorem metadata_resolution:
  "(metadata_file h n (world s) = NoFile \<longrightarrow>
      load_addon_metadata h n m s = (Inr (unit_metadata n m), s))
   \<and> (metadata_file h n (world s) = Raises JSONDecodeError \<longrightarrow>
      load_addon_metadata h n m s
        = (Inr (unit_metadata n m), emit (Warning (InvalidMetadataFile n)) s))
   \<and> (metadata_file h n (world s) = Fields kvs \<longrightarrow>
      (\<exists>md. load_addon_metadata h n m s = (Inr md, s) \<and>
         (\<forall>k. md k = (case map_of (rev kvs) k of
                         None \<Rightarrow> unit_metadata n m k
                       | Some v \<Rightarrow> Some (Data v)))))
   \<and> (m ''__version__'' = None \<longrightarrow>
        unit_metadata n m ''version'' = Some (Data (PyStr ''Unknown'')))
   \<and> (m ''__author__'' = None \<longrightarrow>
        unit_metadata n m ''author'' = Some (Data (PyStr ''Unknown'')))
   \<and> (m ''__dependencies__'' = None \<longrightarrow>
        unit_metadata n m ''dependencies'' = Some (Data (PyList [])))
   \<and> (loaded_addons s n = None \<and> import_module h n (world s) = (Inr m, w)
        \<and> has_callable m ''initialize'' \<and> has_callable m ''shutdown''
        \<and> metadata_file h n w = Raises JSONDecodeError \<longrightarrow>
        fst (load_addon h n s) = Inr True
        \<and> addon_metadata (snd (load_addon h n s)) n = Some (unit_metadata n m))"
proof -
  have r: "metadata_file h n (world s) = NoFile \<Longrightarrow>
      load_addon_metadata h n m s = (Inr (unit_metadata n m), s)"
    and j: "metadata_file h n (world s) = Raises JSONDecodeError \<Longrightarrow>
      load_addon_metadata h n m s
        = (Inr (unit_metadata n m), emit (Warning (InvalidMetadataFile n)) s)"
    and f: "metadata_file h n (world s) = Fields kvs \<Longrightarrow>
      load_addon_metadata h n m s = (Inr (dict_update (unit_metadata n m) kvs), s)"
    by (simp_all add: load_addon_metadata_def Let_def)
  have f': "\<exists>md. load_addon_metadata h n m s = (Inr md, s) \<and>
         (\<forall>k. md k = (case map_of (rev kvs) k of
                         None \<Rightarrow> unit_metadata n m k
                       | Some v \<Rightarrow> Some (Data v)))"
    if "metadata_file h n (world s) = Fields kvs"
    using f [OF that] dict_update_lookup [of "unit_metadata n m" kvs] by simp
  have d: "(m ''__version__'' = None \<longrightarrow>
        unit_metadata n m ''version'' = Some (Data (PyStr ''Unknown'')))
   \<and> (m ''__author__'' = None \<longrightarrow>
        unit_metadata n m ''author'' = Some (Data (PyStr ''Unknown'')))
   \<and> (m ''__dependencies__'' = None \<longrightarrow>
        unit_metadata n m ''dependencies'' = Some (Data (PyList [])))"
    by (simp add: unit_metadata_def getattr_default_def)
  have l: "fst (load_addon h n s) = Inr True
        \<and> addon_metadata (snd (load_addon h n s)) n = Some (unit_metadata n m)"
    if "loaded_addons s n = None" "import_module h n (world s) = (Inr m, w)"
      "has_callable m ''initialize''" "has_callable m ''shutdown''"
      "metadata_file h n w = Raises JSONDecodeError"
    using that by (simp add: load_addon_def load_addon_metadata_def Let_def emit_def)
  from r j f' d l show ?thesis
    by blast
qed

theorem metadata_resolution_witness:
  "metadata_file example_host ''plain'' (world (init 1 :: nat state)) = NoFile
   \<and> load_addon_metadata example_host ''plain'' (example_unit returns_none returns_none []) (init 1)
       = (Inr (unit_metadata ''plain'' (example_unit returns_none returns_none [])), init 1)
   \<and> metadata_file example_host ''A'' (world (init 1 :: nat state)) = Raises JSONDecodeError
   \<and> load_addon_metadata example_host ''A'' (example_unit returns_none returns_none []) (init 1)
       = (Inr (unit_metadata ''A'' (example_unit returns_none returns_none [])),
          emit (Warning (InvalidMetadataFile ''A'')) (init 1))
   \<and> metadata_file example_host ''B'' (world (init 1 :: nat state))
       = Fields [(''version'', PyStr ''2.0'')]
   \<and> (\<exists>md. load_addon_metadata example_host ''B''
              (example_unit returns_none returns_none [PyStr ''A'']) (init 1) = (Inr md, init 1)
          \<and> md ''version'' = Some (Data (PyStr ''2.0'')))
   \<and> example_unit returns_none returns_none [] ''__version__'' = None
   \<and> unit_metadata ''A'' (example_unit returns_none returns_none []) ''version''
       = Some (Data (PyStr ''Unknown''))
   \<and> example_unit returns_none returns_none [] ''__author__'' = None
   \<and> unit_metadata ''A'' (example_unit returns_none returns_none []) ''author''
       = Some (Data (PyStr ''Unknown''))
   \<and> [''__doc__'' \<mapsto> Data PyNone, ''shutdown'' \<mapsto> Callable returns_none] ''__dependencies__'' = None
   \<and> unit_metadata ''headless'' [''__doc__'' \<mapsto> Data PyNone, ''shutdown'' \<mapsto> Callable returns_none]
         ''dependencies'' = Some (Data (PyList []))
   \<and> fst (load_addon example_host ''A'' (init 0)) = Inr True
   \<and> addon_metadata (snd (load_addon example_host ''A'' (init 0))) ''A''
       = Some (unit_metadata ''A'' (example_unit returns_none returns_none []))"
proof -
  let ?u = "example_unit returns_none returns_none []"
  let ?b = "example_unit returns_none returns_none [PyStr ''A'']"
  let ?hl = "[''__doc__'' \<mapsto> Data PyNone, ''shutdown'' \<mapsto> Callable returns_none] :: nat module"
  define s1 where "s1 = (init 1 :: nat state)"
  define s0 where "s0 = (init 0 :: nat state)"
  have f1: "metadata_file example_host ''plain'' (world s1) = NoFile"
    and f2: "metadata_file example_host ''A'' (world s1) = Raises JSONDecodeError"
    and f3: "metadata_file example_host ''B'' (world s1) = Fields [(''version'', PyStr ''2.0'')]"
    unfolding s1_def by (simp_all add: example_defs)
  have g1: "?u ''__version__'' = None" and g2: "?u ''__author__'' = None"
    and g3: "?hl ''__dependencies__'' = None"
    by (simp_all add: example_defs)
  have l: "loaded_addons s0 ''A'' = None \<and> import_module example_host ''A'' (world s0) = (Inr ?u, 1)
        \<and> has_callable ?u ''initialize'' \<and> has_callable ?u ''shutdown''
        \<and> metadata_file example_host ''A'' 1 = Raises JSONDecodeError"
    unfolding s0_def by (simp add: example_defs has_callable_def)
  note a = metadata_resolution [where h = example_host and n = "''plain''" and s = s1 and m = ?u]
  note b = metadata_resolution [where h = example_host and n = "''A''" and s = s1 and m = ?u]
  note c = metadata_resolution [where h = example_host and n = "''B''" and s = s1 and m = ?b
      and kvs = "[(''version'', PyStr ''2.0'')]"]
  note d = metadata_resolution [where h = example_host and n = "''A''" and s = s0 and m = ?u and w = 1]
  note e = metadata_resolution [where h = example_host and n = "''headless''" and s = s1 and m = ?hl]
  have a1: "load_addon_metadata example_host ''plain'' ?u s1 = (Inr (unit_metadata ''plain'' ?u), s1)"
    using a f1 by blast
  have b1: "load_addon_metadata example_host ''A'' ?u s1
       = (Inr (unit_metadata ''A'' ?u), emit (Warning (InvalidMetadataFile ''A'')) s1)"
    using b f2 by blast
  from c f3 obtain md where md: "load_addon_metadata example_host ''B'' ?b s1 = (Inr md, s1)"
    and mdk: "\<forall>k. md k = (case map_of (rev [(''version'', PyStr ''2.0'')]) k of
                         None \<Rightarrow> unit_metadata ''B'' ?b k
                       | Some v \<Rightarrow> Some (Data v))"
    by blast
  from mdk have "md ''version'' = Some (Data (PyStr ''2.0''))"
    by simp
  with md have c1: "\<exists>md. load_addon_metadata example_host ''B'' ?b s1 = (Inr md, s1)
          \<and> md ''version'' = Some (Data (PyStr ''2.0''))"
    by blast
  have b2: "unit_metadata ''A'' ?u ''version'' = Some (Data (PyStr ''Unknown''))"
    and b3: "unit_metadata ''A'' ?u ''author'' = Some (Data (PyStr ''Unknown''))"
    using b g1 g2 by blast+
  have e1: "unit_metadata ''headless'' ?hl ''dependencies'' = Some (Data (PyList []))"
    using e g3 by blast
  have d1: "fst (load_addon example_host ''A'' s0) = Inr True
     \<and> addon_metadata (snd (load_addon example_host ''A'' s0)) ''A'' = Some (unit_metadata ''A'' ?u)"
    using d l by blast
  have "metadata_file example_host ''plain'' (world s1) = NoFile
   \<and> load_addon_metadata example_host ''plain'' ?u s1 = (Inr (unit_metadata ''plain'' ?u), s1)
   \<and> metadata_file example_host ''A'' (world s1) = Raises JSONDecodeError
   \<and> load_addon_metadata example_host ''A'' ?u s1
       = (Inr (unit_metadata ''A'' ?u), emit (Warning (InvalidMetadataFile ''A'')) s1)
   \<and> metadata_file example_host ''B'' (world s1) = Fields [(''version'', PyStr ''2.0'')]
   \<and> (\<exists>md. load_addon_metadata example_host ''B'' ?b s1 = (Inr md, s1)
          \<and> md ''version'' = Some (Data (PyStr ''2.0'')))
   \<and> ?u ''__version__'' = None
   \<and> unit_metadata ''A'' ?u ''version'' = Some (Data (PyStr ''Unknown''))
   \<and> ?u ''__author__'' = None
   \<and> unit_metadata ''A'' ?u ''author'' = Some (Data (PyStr ''Unknown''))
   \<and> ?hl ''__dependencies__'' = None
   \<and> unit_metadata ''headless'' ?hl ''dependencies'' = Some (Data (PyList []))
   \<and> fst (load_addon example_host ''A'' s0) = Inr True
   \<and> addon_metadata (snd (load_addon example_host ''A'' s0)) ''A'' = Some (unit_metadata ''A'' ?u)"
    using f1 a1 f2 b1 f3 c1 g1 b2 g2 b3 g3 e1 d1 by blast
  then show ?thesis
    unfolding s1_def s0_def .
qed

text \<open>
  C7. The claim gives the description of a unit that declares none the default
  \<open>No description provided.\<close> The code asks for it with
  \<open>getattr(addon_module, "__doc__", "No description provided.")\<close>, but a Python
  module always has the attribute \<open>__doc__\<close>, bound to \<open>None\<close> when the file has
  no docstring, so the default is never taken. For the unit \<open>plain\<close>, which has no
  docstring and no metadata file, the load succeeds and the description that
  \<open>load_addon\<close> stores is \<open>None\<close>.
\<close>

theorem missing_docstring_description_is_none:
  "example_units ''plain'' = Inr (example_unit returns_none returns_none [])
   \<and> example_unit returns_none returns_none [] ''__doc__'' = Some (Data PyNone)
   \<and> metadata_file example_host ''plain'' 1 = NoFile
   \<and> fst (load_addon example_host ''plain'' (init 0)) = Inr True
   \<and> map_option (\<lambda>md. md ''description'')
        (addon_metadata (snd (load_addon example_host ''plain'' (init 0))) ''plain'')
       = Some (Some (Data PyNone))"
  by (simp add: example_defs manager_defs)

subsection \<open>Dependencies and activation\<close>

lemma py_in_cases:
  "py_in d a = Inr True \<or> py_in d a = Inr False \<and> hashable d
   \<or> py_in d a = Inl (TypeError ''unhashable type'') \<and> \<not> hashable d"
  by (cases d) (auto simp: py_in_def)

lemma check_each_find:
  "check_each deps a =
     (case find (\<lambda>d. py_in d a \<noteq> Inr True) deps of
        None \<Rightarrow> Inr ()
      | Some d \<Rightarrow> Inl (dependency_error d))"
proof (induction deps)
  case Nil
  show ?case by simp
next
  case (Cons d deps)
  from py_in_cases [of d a] show ?case
    using Cons.IH by (auto simp: dependency_error_def)
qed

lemma check_each_ok_iff:
  "check_each deps a = Inr () \<longleftrightarrow> list_all (\<lambda>d. py_in d a = Inr True) deps"
  by (induction deps) (auto split: sum.splits bool.splits)

lemma check_each_self:
  "PyStr n \<in> set deps \<Longrightarrow> a n = None \<Longrightarrow> check_each deps a \<noteq> Inr ()"
  by (induction deps) (auto simp: py_in_def split: sum.splits bool.splits)

lemma py_iter_is_exception: "py_iter v = Inl e \<Longrightarrow> is_exception e"
  by (induction v rule: py_iter.induct) auto

lemma check_each_is_exception: "check_each deps a = Inl e \<Longrightarrow> is_exception e"
  unfolding check_each_find
  by (auto simp: dependency_error_def split: option.splits if_splits)

lemma check_dependencies_is_exception: "check_dependencies n s = Inl e \<Longrightarrow> is_exception e"
  by (auto simp: check_dependencies_def split: option.splits sum.splits
      dest: py_iter_is_exception check_each_is_exception)

lemma activate_addon_cases:
  assumes "loaded_addons s n = Some m" "active_addons s n = None"
  shows "activate_addon n s =
    (case check_dependencies n s of
       Inl e \<Rightarrow> (Inr False, emit (Error (ActivateFailed n e)) s)
     | Inr u \<Rightarrow>
         (case call_attr m ''initialize'' [] [] (world s) of
            (Inl e, w) \<Rightarrow> except_Exception (ActivateFailed n) e (s\<lparr>world := w\<rparr>)
          | (Inr r, w) \<Rightarrow> (Inr True, emit (Info (ActivatedOk n))
                (s\<lparr>world := w, active_addons := (active_addons s)(n \<mapsto> m)\<rparr>))))"
proof (cases "check_dependencies n s")
  case (Inl e)
  then have "is_exception e" by (rule check_dependencies_is_exception)
  with assms Inl show ?thesis
    by (simp add: activate_addon_def except_Exception_def)
next
  case (Inr u)
  with assms show ?thesis
    by (simp add: activate_addon_def)
qed

text \<open>
  C3, as stated, is false, in three ways. The unit \<open>broken\<close> is loaded and not
  active and declares no dependencies, so each of them is active, and yet
  \<open>activate_addon\<close> leaves it inactive, because its \<open>initialize\<close> raises. The unit
  \<open>odd\<close> declares \<open>[[], "odd"]\<close>: its first dependency is not active, and the
  failure that \<open>activate_addon\<close> logs is a \<open>TypeError\<close>, since a list cannot be
  hashed, not the error that names the dependency. The unit \<open>void\<close> has the
  dependencies \<open>null\<close>: there is no dependency that is not active, and
  \<open>activate_addon\<close> fails with a \<open>TypeError\<close>, since \<open>None\<close> cannot be
  iterated.
\<close>

theorem activate_not_iff_dependencies:
  "loaded_addons (run example_host [Load ''broken''] (init 0)) ''broken'' \<noteq> None
   \<and> active_addons (run example_host [Load ''broken''] (init 0)) ''broken'' = None
   \<and> map_option declared_dependencies
        (addon_metadata (run example_host [Load ''broken''] (init 0)) ''broken'')
       = Some (Data (PyList []))
   \<and> check_dependencies ''broken'' (run example_host [Load ''broken''] (init 0)) = Inr ()
   \<and> fst (activate_addon ''broken'' (run example_host [Load ''broken''] (init 0))) = Inr False
   \<and> active_addons (snd (activate_addon ''broken'' (run example_host [Load ''broken''] (init 0))))
        ''broken'' = None
   \<and> loaded_addons (run example_host [Load ''odd''] (init 0)) ''odd'' \<noteq> None
   \<and> active_addons (run example_host [Load ''odd''] (init 0)) ''odd'' = None
   \<and> map_option declared_dependencies
        (addon_metadata (run example_host [Load ''odd''] (init 0)) ''odd'')
       = Some (Data (PyList [PyList [], PyStr ''odd'']))
   \<and> fst (activate_addon ''odd'' (run example_host [Load ''odd''] (init 0))) = Inr False
   \<and> last (logged (snd (activate_addon ''odd'' (run example_host [Load ''odd''] (init 0)))))
       = Error (ActivateFailed ''odd'' (TypeError ''unhashable type''))
   \<and> loaded_addons (run example_host [Load ''void''] (init 0)) ''void'' \<noteq> None
   \<and> active_addons (run example_host [Load ''void''] (init 0)) ''void'' = None
   \<and> map_option declared_dependencies
        (addon_metadata (run example_host [Load ''void''] (init 0)) ''void'')
       = Some (Data PyNone)
   \<and> fst (activate_addon ''void'' (run example_host [Load ''void''] (init 0))) = Inr False
   \<and> last (logged (snd (activate_addon ''void'' (run example_host [Load ''void''] (init 0)))))
       = Error (ActivateFailed ''void'' (TypeError ''object is not iterable''))"
  by (simp add: example_defs manager_defs)

text \<open>
  C3, amended. For a loaded addon that is not active: \<open>activate_addon\<close> returns
  \<open>True\<close>, and the addon becomes active, if and only if its declared dependencies can
  be iterated, every one of them is active, and the unit's \<open>initialize\<close> returns.
  When some declared dependency is not active, the call returns \<open>False\<close> and logs
  the failure at the first such dependency in declaration order: the \<open>ImportError\<close>
  that names it when it can be hashed, a \<open>TypeError\<close> when it cannot. When the
  declared dependencies cannot be iterated, the call returns \<open>False\<close> and logs that
  \<open>TypeError\<close> (the \<open>KeyError\<close> when the addon has no metadata, which no sequence
  of operations from the empty registry brings about). In these cases the three
  dictionaries and the world are as before, so \<open>initialize\<close> has not run.
\<close>

theorem activate_iff_dependencies_and_initialize:
  assumes "loaded_addons s n = Some m" and "active_addons s n = None"
  shows "(fst (activate_addon n s) = Inr True \<longleftrightarrow>
            dependencies_active s n
            \<and> (\<exists>r. fst (call_attr m ''initialize'' [] [] (world s)) = Inr r))
       \<and> (active_addons (snd (activate_addon n s)) n \<noteq> None \<longleftrightarrow>
            dependencies_active s n
            \<and> (\<exists>r. fst (call_attr m ''initialize'' [] [] (world s)) = Inr r))
       \<and> (\<forall>d. first_unsatisfied s n = Some d \<longrightarrow>
            activate_addon n s
              = (Inr False, emit (Error (ActivateFailed n (dependency_error d))) s)
            \<and> registry (snd (activate_addon n s)) = registry s
            \<and> world (snd (activate_addon n s)) = world s)
       \<and> (\<forall>e. iteration_error s n = Some e \<longrightarrow>
            activate_addon n s = (Inr False, emit (Error (ActivateFailed n e)) s)
            \<and> registry (snd (activate_addon n s)) = registry s
            \<and> world (snd (activate_addon n s)) = world s)"
proof -
  have cd: "check_dependencies n s =
      (case addon_metadata s n of
         None \<Rightarrow> Inl (KeyError n)
       | Some md \<Rightarrow>
           (case py_iter (declared_dependencies md) of
              Inl e \<Rightarrow> Inl e
            | Inr deps \<Rightarrow> check_each deps (active_addons s)))"
    by (simp add: check_dependencies_def)
  have ok: "check_dependencies n s = Inr () \<longleftrightarrow> dependencies_active s n"
    unfolding cd dependencies_active_def is_active_def
    by (simp add: check_each_ok_iff split: option.splits sum.splits)
  note act = activate_addon_cases [OF assms(1,2)]
  obtain q w where call: "call_attr m ''initialize'' [] [] (world s) = (q, w)"
    by (cases "call_attr m ''initialize'' [] [] (world s)")
  have p1: "fst (activate_addon n s) = Inr True \<longleftrightarrow>
            dependencies_active s n
            \<and> (\<exists>r. fst (call_attr m ''initialize'' [] [] (world s)) = Inr r)"
    using ok call unfolding act
    by (cases "check_dependencies n s"; cases q) (auto simp: except_Exception_def)
  have p2: "active_addons (snd (activate_addon n s)) n \<noteq> None \<longleftrightarrow>
            dependencies_active s n
            \<and> (\<exists>r. fst (call_attr m ''initialize'' [] [] (world s)) = Inr r)"
    using ok call assms(2) unfolding act
    by (cases "check_dependencies n s"; cases q) (auto simp: except_Exception_def emit_def)
  have p3: "activate_addon n s
              = (Inr False, emit (Error (ActivateFailed n (dependency_error d))) s)
            \<and> registry (snd (activate_addon n s)) = registry s
            \<and> world (snd (activate_addon n s)) = world s"
    if "first_unsatisfied s n = Some d" for d
  proof -
    from that obtain md deps where md: "addon_metadata s n = Some md"
      and it: "py_iter (declared_dependencies md) = Inr deps"
      and f: "find (\<lambda>d. \<not> is_active s d) deps = Some d"
      unfolding first_unsatisfied_def
      by (auto split: option.splits sum.splits)
    have "check_dependencies n s = Inl (dependency_error d)"
      using f by (simp add: cd md it check_each_find is_active_def)
    then show ?thesis
      unfolding act by (simp add: registry_emit world_emit)
  qed
  have p4: "activate_addon n s = (Inr False, emit (Error (ActivateFailed n e)) s)
            \<and> registry (snd (activate_addon n s)) = registry s
            \<and> world (snd (activate_addon n s)) = world s"
    if "iteration_error s n = Some e" for e
  proof -
    have "check_dependencies n s = Inl e"
      using that unfolding cd iteration_error_def
      by (auto split: option.splits sum.splits)
    then show ?thesis
      unfolding act by (simp add: registry_emit world_emit)
  qed
  from p1 p2 p3 p4 show ?thesis by blast
qed

theorem activate_iff_dependencies_and_initialize_witness:
  "loaded_addons (run example_host [Load ''A'', Load ''B''] (init 0)) ''B''
     = Some (example_unit returns_none returns_none [PyStr ''A''])
   \<and> active_addons (run example_host [Load ''A'', Load ''B''] (init 0)) ''B'' = None
   \<and> map_option declared_dependencies
        (addon_metadata (run example_host [Load ''A'', Load ''B''] (init 0)) ''B'')
       = Some (Data (PyList [PyStr ''A'']))
   \<and> first_unsatisfied (run example_host [Load ''A'', Load ''B''] (init 0)) ''B''
       = Some (PyStr ''A'')
   \<and> fst (activate_addon ''B'' (run example_host [Load ''A'', Load ''B''] (init 0))) \<noteq> Inr True
   \<and> active_addons (snd (activate_addon ''B'' (run example_host [Load ''A'', Load ''B''] (init 0))))
        ''B'' = None
   \<and> activate_addon ''B'' (run example_host [Load ''A'', Load ''B''] (init 0))
       = (Inr False, emit (Error (ActivateFailed ''B'' (ImportError (PyStr ''A''))))
            (run example_host [Load ''A'', Load ''B''] (init 0)))
   \<and> world (snd (activate_addon ''B'' (run example_host [Load ''A'', Load ''B''] (init 0))))
       = world (run example_host [Load ''A'', Load ''B''] (init 0))
   \<and> dependencies_active (run example_host [Load ''A'', Activate ''A'', Load ''B''] (init 0)) ''B''
   \<and> fst (activate_addon ''B'' (run example_host [Load ''A'', Activate ''A'', Load ''B''] (init 0)))
       = Inr True
   \<and> active_addons
        (snd (activate_addon ''B'' (run example_host [Load ''A'', Activate ''A'', Load ''B''] (init 0))))
        ''B'' \<noteq> None
   \<and> first_unsatisfied (run example_host [Load ''odd''] (init 0)) ''odd'' = Some (PyList [])
   \<and> activate_addon ''odd'' (run example_host [Load ''odd''] (init 0))
       = (Inr False, emit (Error (ActivateFailed ''odd'' (TypeError ''unhashable type'')))
            (run example_host [Load ''odd''] (init 0)))
   \<and> iteration_error (run example_host [Load ''void''] (init 0)) ''void''
       = Some (TypeError ''object is not iterable'')
   \<and> activate_addon ''void'' (run example_host [Load ''void''] (init 0))
       = (Inr False, emit (Error (ActivateFailed ''void'' (TypeError ''object is not iterable'')))
            (run example_host [Load ''void''] (init 0)))"
proof -
  define s where "s = run example_host [Load ''A'', Load ''B''] (init 0)"
  define t where "t = run example_host [Load ''A'', Activate ''A'', Load ''B''] (init 0)"
  define u where "u = run example_host [Load ''odd''] (init 0)"
  define v where "v = run example_host [Load ''void''] (init 0)"
  let ?m = "example_unit returns_none returns_none [PyStr ''A'']"
  let ?om = "example_unit returns_none returns_none [PyList [], PyStr ''odd'']"
  let ?vm = "example_unit returns_none returns_none []"
  let ?ni = "TypeError ''object is not iterable''"
  have s1: "loaded_addons s ''B'' = Some ?m" and s2: "active_addons s ''B'' = None"
    unfolding s_def by (simp_all add: example_defs manager_defs)
  have t1: "loaded_addons t ''B'' = Some ?m" and t2: "active_addons t ''B'' = None"
    unfolding t_def by (simp_all add: example_defs manager_defs)
  have u1: "loaded_addons u ''odd'' = Some ?om" and u2: "active_addons u ''odd'' = None"
    unfolding u_def by (simp_all add: example_defs manager_defs)
  have v1: "loaded_addons v ''void'' = Some ?vm" and v2: "active_addons v ''void'' = None"
    unfolding v_def by (simp_all add: example_defs manager_defs)
  have m1: "map_option declared_dependencies (addon_metadata s ''B'')
      = Some (Data (PyList [PyStr ''A'']))"
    unfolding s_def by (simp add: example_defs manager_defs)
  have sf: "first_unsatisfied s ''B'' = Some (PyStr ''A'')"
    unfolding s_def
    by (simp add: first_unsatisfied_def is_active_def example_defs manager_defs)
  have sn: "\<not> dependencies_active s ''B''"
    unfolding s_def
    by (simp add: dependencies_active_def is_active_def example_defs manager_defs)
  have tg: "dependencies_active t ''B''"
    unfolding t_def
    by (simp add: dependencies_active_def is_active_def example_defs manager_defs)
  have ti: "\<exists>r. fst (call_attr ?m ''initialize'' [] [] (world t)) = Inr r"
    by (simp add: example_defs manager_defs)
  have uf: "first_unsatisfied u ''odd'' = Some (PyList [])"
    unfolding u_def
    by (simp add: first_unsatisfied_def is_active_def example_defs manager_defs)
  have vi: "iteration_error v ''void'' = Some ?ni"
    unfolding v_def by (simp add: iteration_error_def example_defs manager_defs)
  have de1: "dependency_error (PyStr ''A'') = ImportError (PyStr ''A'')"
    and de2: "dependency_error (PyList []) = TypeError ''unhashable type''"
    by (simp_all add: dependency_error_def)
  note a = activate_iff_dependencies_and_initialize [OF s1 s2]
  note b = activate_iff_dependencies_and_initialize [OF t1 t2]
  note c = activate_iff_dependencies_and_initialize [OF u1 u2]
  note d = activate_iff_dependencies_and_initialize [OF v1 v2]
  have a1: "fst (activate_addon ''B'' s) \<noteq> Inr True"
    using a sn by blast
  have a2: "active_addons (snd (activate_addon ''B'' s)) ''B'' = None"
    using a sn by blast
  have a3: "activate_addon ''B'' s
       = (Inr False, emit (Error (ActivateFailed ''B'' (ImportError (PyStr ''A'')))) s)
     \<and> world (snd (activate_addon ''B'' s)) = world s"
    using a sf unfolding de1 [symmetric] by blast
  have b1: "fst (activate_addon ''B'' t) = Inr True"
    using b tg ti by blast
  have b2: "active_addons (snd (activate_addon ''B'' t)) ''B'' \<noteq> None"
    using b tg ti by blast
  have c1: "activate_addon ''odd'' u
       = (Inr False, emit (Error (ActivateFailed ''odd'' (TypeError ''unhashable type''))) u)"
    using c uf unfolding de2 [symmetric] by blast
  have d1: "activate_addon ''void'' v = (Inr False, emit (Error (ActivateFailed ''void'' ?ni)) v)"
    using d vi by blast
  have "loaded_addons s ''B'' = Some ?m
   \<and> active_addons s ''B'' = None
   \<and> map_option declared_dependencies (addon_metadata s ''B'') = Some (Data (PyList [PyStr ''A'']))
   \<and> first_unsatisfied s ''B'' = Some (PyStr ''A'')
   \<and> fst (activate_addon ''B'' s) \<noteq> Inr True
   \<and> active_addons (snd (activate_addon ''B'' s)) ''B'' = None
   \<and> activate_addon ''B'' s
       = (Inr False, emit (Error (ActivateFailed ''B'' (ImportError (PyStr ''A'')))) s)
   \<and> world (snd (activate_addon ''B'' s)) = world s
   \<and> dependencies_active t ''B''
   \<and> fst (activate_addon ''B'' t) = Inr True
   \<and> active_addons (snd (activate_addon ''B'' t)) ''B'' \<noteq> None
   \<and> first_unsatisfied u ''odd'' = Some (PyList [])
   \<and> activate_addon ''odd'' u
       = (Inr False, emit (Error (ActivateFailed ''odd'' (TypeError ''unhashable type''))) u)
   \<and> iteration_error v ''void'' = Some ?ni
   \<and> activate_addon ''void'' v = (Inr False, emit (Error (ActivateFailed ''void'' ?ni)) v)"
    using s1 s2 m1 sf a1 a2 a3 tg b1 b2 uf c1 vi d1 by blast
  then show ?thesis
    unfolding s_def t_def u_def v_def .
qed

subsection \<open>An addon that depends on itself\<close>

lemma self_blocked_emit: "self_blocked n (emit e s) = self_blocked n s"
  by (simp add: self_blocked_def emit_def)

lemma self_blocked_except:
  "self_blocked n (snd (except_Exception msg e s)) = self_blocked n s"
  by (simp add: except_Exception_def self_blocked_emit)

lemma check_dependencies_self:
  assumes "self_blocked n s"
  shows "check_dependencies n s \<noteq> Inr ()"
proof (cases "addon_metadata s n")
  case None
  then show ?thesis by (simp add: check_dependencies_def)
next
  case (Some md)
  with assms have "declares_itself n md" and "active_addons s n = None"
    by (simp_all add: self_blocked_def)
  then show ?thesis
    using Some check_each_self [of n _ "active_addons s"]
    by (auto simp: check_dependencies_def declares_itself_def split: sum.splits)
qed

lemma self_blocked_activate:
  assumes "self_blocked n s"
  shows "self_blocked n (snd (activate_addon x s))"
proof (cases "x = n")
  case True
  have "check_dependencies n s \<noteq> Inr ()"
    using assms by (rule check_dependencies_self)
  then show ?thesis
    using assms True
    by (auto simp: activate_addon_def self_blocked_emit self_blocked_except
        split: option.splits sum.splits)
next
  case False
  then show ?thesis
    using assms
    by (auto simp: activate_addon_def self_blocked_def emit_def except_Exception_def
        split: option.splits sum.splits prod.splits)
qed

lemma self_blocked_deactivate:
  assumes "self_blocked n s"
  shows "self_blocked n (snd (deactivate_addon x s))"
  using assms
  by (auto simp: deactivate_addon_def self_blocked_def emit_def except_Exception_def
      split: option.splits sum.splits prod.splits)

lemma load_addon_success_metadata:
  assumes "fst (load_addon h n s) = Inr True"
  shows "\<exists>m w md. import_module h n (world s) = (Inr m, w)
           \<and> fst (load_addon_metadata h n m (s\<lparr>world := w\<rparr>)) = Inr md
           \<and> addon_metadata (snd (load_addon h n s)) = (addon_metadata s)(n \<mapsto> md)
           \<and> loaded_addons (snd (load_addon h n s)) = (loaded_addons s)(n \<mapsto> m)
           \<and> active_addons (snd (load_addon h n s)) = active_addons s"
proof -
  have nl: "loaded_addons s n = None"
  proof (rule ccontr)
    assume "loaded_addons s n \<noteq> None"
    then have "fst (load_addon h n s) = Inr False"
      by (simp add: load_addon_def)
    with assms show False by simp
  qed
  obtain r w where imp0: "import_module h n (world s) = (r, w)"
    by (cases "import_module h n (world s)")
  have "\<exists>m. r = Inr m"
  proof (cases r)
    case (Inl e)
    with nl imp0 have "fst (load_addon h n s) \<noteq> Inr True"
      by (simp add: load_addon_import_raises except_Exception_not_True)
    with assms show ?thesis by simp
  qed simp
  then obtain m where imp: "import_module h n (world s) = (Inr m, w)"
    using imp0 by blast
  have i: "has_callable m ''initialize''"
  proof (rule ccontr)
    assume "\<not> has_callable m ''initialize''"
    from load_addon_no_initialize [OF nl imp this] have "fst (load_addon h n s) \<noteq> Inr True"
      by (simp add: except_Exception_not_True)
    with assms show False by simp
  qed
  have sh: "has_callable m ''shutdown''"
  proof (rule ccontr)
    assume "\<not> has_callable m ''shutdown''"
    from load_addon_no_shutdown [OF nl imp i this] have "fst (load_addon h n s) \<noteq> Inr True"
      by (simp add: except_Exception_not_True)
    with assms show False by simp
  qed
  obtain q s' where res0: "load_addon_metadata h n m (s\<lparr>world := w\<rparr>) = (q, s')"
    by (cases "load_addon_metadata h n m (s\<lparr>world := w\<rparr>)")
  have "\<exists>md. q = Inr md"
  proof (cases q)
    case (Inl e)
    with res0 have "load_addon_metadata h n m (s\<lparr>world := w\<rparr>) = (Inl e, s')"
      by simp
    from load_addon_metadata_raises [OF nl imp i sh this]
    have "fst (load_addon h n s) \<noteq> Inr True"
      by (simp add: except_Exception_not_True)
    with assms show ?thesis by simp
  qed simp
  then obtain md where res: "load_addon_metadata h n m (s\<lparr>world := w\<rparr>) = (Inr md, s')"
    using res0 by blast
  have fr: "registry s' = registry s"
    using load_addon_metadata_frame [OF res] by (simp add: registry_def)
  have "load_addon h n s = (Inr True, emit (Info (LoadedOk n))
           (s'\<lparr>addon_metadata := (addon_metadata s')(n \<mapsto> md),
               loaded_addons := (loaded_addons s')(n \<mapsto> m)\<rparr>))"
    using nl imp i sh res by (rule load_addon_registers)
  then have "addon_metadata (snd (load_addon h n s)) = (addon_metadata s)(n \<mapsto> md)
           \<and> loaded_addons (snd (load_addon h n s)) = (loaded_addons s)(n \<mapsto> m)
           \<and> active_addons (snd (load_addon h n s)) = active_addons s"
    using fr by (simp add: emit_def registry_def)
  moreover have "fst (load_addon_metadata h n m (s\<lparr>world := w\<rparr>)) = Inr md"
    using res by simp
  ultimately show ?thesis
    using imp by blast
qed

lemma load_addon_other:
  assumes "x \<noteq> n"
  shows "active_addons (snd (load_addon h x s)) = active_addons s
       \<and> addon_metadata (snd (load_addon h x s)) n = addon_metadata s n"
proof (cases "fst (load_addon h x s) = Inr True")
  case False
  then have "registry (snd (load_addon h x s)) = registry s"
    by (rule load_addon_failure_frame)
  then show ?thesis by (simp add: registry_def)
next
  case True
  from load_addon_success_metadata [OF True] assms show ?thesis
    by auto
qed

lemma self_blocked_load:
  assumes "self_blocked n s" and "always_declares_itself h n"
  shows "self_blocked n (snd (load_addon h x s))"
proof (cases "x = n")
  case False
  from load_addon_other [OF False, of h s] assms(1) show ?thesis
    by (simp add: self_blocked_def)
next
  case True
  show ?thesis
  proof (cases "fst (load_addon h n s) = Inr True")
    case False
    then have "registry (snd (load_addon h n s)) = registry s"
      by (rule load_addon_failure_frame)
    then show ?thesis
      using assms(1) True by (simp add: self_blocked_def registry_def)
  next
    case ok: True
    from load_addon_success_metadata [OF ok] obtain m w md where
      imp: "import_module h n (world s) = (Inr m, w)"
      and res: "fst (load_addon_metadata h n m (s\<lparr>world := w\<rparr>)) = Inr md"
      and md: "addon_metadata (snd (load_addon h n s)) = (addon_metadata s)(n \<mapsto> md)"
      and ac: "active_addons (snd (load_addon h n s)) = active_addons s"
      by blast
    have decl: "declares_itself n md"
      using assms(2) imp res unfolding always_declares_itself_def by blast
    show ?thesis
      using assms(1) decl True md ac by (simp add: self_blocked_def)
  qed
qed

lemma self_blocked_forget:
  "self_blocked n s \<Longrightarrow>
   self_blocked n (s\<lparr>loaded_addons := l\<rparr>) \<and>
   self_blocked n (s\<lparr>loaded_addons := l, addon_metadata := (addon_metadata s)(x := None)\<rparr>)"
  by (simp add: self_blocked_def)

text \<open>\<open>reload_addon\<close>, step by step.\<close>

lemma reload_addon_steps:
  assumes "loaded_addons s x \<noteq> None"
    and "(if active_addons s x \<noteq> None then deactivate_addon x s else (Inr False, s)) = (q1, s1)"
    and "load_addon h x
           (s1\<lparr>loaded_addons := (loaded_addons s1)(x := None),
               addon_metadata := (addon_metadata s1)(x := None)\<rparr>) = (q4, s4)"
  shows "reload_addon h x s =
     (case q1 of
        Inl e \<Rightarrow> (Inl e, s1)
      | Inr b \<Rightarrow>
          if addon_metadata s1 x = None
          then (Inl (KeyError x), s1\<lparr>loaded_addons := (loaded_addons s1)(x := None)\<rparr>)
          else (case q4 of
                  Inl e \<Rightarrow> (Inl e, s4)
                | Inr True \<Rightarrow>
                    (if active_addons s x \<noteq> None then activate_addon x s4 else (Inr True, s4))
                | Inr False \<Rightarrow> (Inr False, s4)))"
proof -
  from assms(1) obtain m where l: "loaded_addons s x = Some m"
    by auto
  show ?thesis
  proof (cases "active_addons s x")
    case None
    with assms(2) have e: "q1 = Inr False" "s1 = s"
      by simp_all
    show ?thesis
      using l None assms(3) unfolding e
      by (cases q4) (auto simp: reload_addon_def Let_def split: bool.splits)
  next
    case (Some a)
    with assms(2) have d: "deactivate_addon x s = (q1, s1)"
      by simp
    show ?thesis
      using l Some d assms(3)
      by (cases q1; cases q4) (auto simp: reload_addon_def Let_def split: bool.splits)
  qed
qed

lemma self_blocked_reload:
  assumes "self_blocked n s" and "always_declares_itself h n"
  shows "self_blocked n (snd (reload_addon h x s))"
proof (cases "loaded_addons s x = None")
  case True
  then show ?thesis
    using assms(1) by (simp add: reload_addon_def self_blocked_emit)
next
  case False
  obtain q1 s1 where r1:
    "(if active_addons s x \<noteq> None then deactivate_addon x s else (Inr False, s)) = (q1, s1)"
    by (cases "if active_addons s x \<noteq> None then deactivate_addon x s else (Inr False, s)")
  define s3 where "s3 = s1\<lparr>loaded_addons := (loaded_addons s1)(x := None),
                             addon_metadata := (addon_metadata s1)(x := None)\<rparr>"
  obtain q4 s4 where l4: "load_addon h x s3 = (q4, s4)"
    by (cases "load_addon h x s3")
  have "s1 = s \<or> s1 = snd (deactivate_addon x s)"
    using r1 by (auto split: if_splits)
  then have b1: "self_blocked n s1"
    using assms(1) self_blocked_deactivate [of n s x] by auto
  have b2: "self_blocked n (s1\<lparr>loaded_addons := (loaded_addons s1)(x := None)\<rparr>)"
    and b3: "self_blocked n s3"
    using self_blocked_forget [OF b1] by (simp_all add: s3_def)
  have b4: "self_blocked n s4"
    using self_blocked_load [OF b3 assms(2), of x] l4 by simp
  have b5: "self_blocked n (snd (activate_addon x s4))"
    using b4 by (rule self_blocked_activate)
  note st = reload_addon_steps [OF False r1 l4 [unfolded s3_def]]
  show ?thesis
    unfolding st using b1 b2 b4 b5
    by (cases q1; cases q4) (auto split: bool.splits)
qed

lemma self_blocked_perform:
  "self_blocked n s \<Longrightarrow> always_declares_itself h n \<Longrightarrow> self_blocked n (perform h x s)"
  by (cases x)
    (simp_all add: self_blocked_load self_blocked_activate self_blocked_deactivate
      self_blocked_reload)

lemma self_blocked_run:
  "self_blocked n s \<Longrightarrow> always_declares_itself h n \<Longrightarrow> self_blocked n (run h xs s)"
  by (induction xs arbitrary: s) (simp_all add: self_blocked_perform)

lemma find_first_self:
  "x \<in> set deps \<Longrightarrow> \<not> P x \<Longrightarrow> list_all P (takeWhile (\<lambda>d. d \<noteq> x) deps) \<Longrightarrow>
   find (\<lambda>d. \<not> P d) deps = Some x"
  by (induction deps) (auto split: if_splits)

lemma find_exists:
  "x \<in> set deps \<Longrightarrow> \<not> P x \<Longrightarrow> \<exists>d. find (\<lambda>d. \<not> P d) deps = Some d"
  by (induction deps) auto

text \<open>
  C10, as stated, is false, in two ways. The unit \<open>selfish\<close> declares \<open>A\<close> and
  itself: while \<open>A\<close> is not active, the failure that \<open>activate_addon\<close> logs names
  \<open>A\<close>, not \<open>selfish\<close>. The unit \<open>odd\<close> declares \<open>[[], "odd"]\<close>: the
  failure that \<open>activate_addon\<close> logs is a \<open>TypeError\<close>, since a list cannot be
  hashed, not an error that names a dependency.
\<close>

theorem self_dependency_names_earlier_dependency:
  "loaded_addons (run example_host [Load ''A'', Load ''selfish''] (init 0)) ''selfish'' \<noteq> None
   \<and> active_addons (run example_host [Load ''A'', Load ''selfish''] (init 0)) ''selfish'' = None
   \<and> map_option declared_dependencies
        (addon_metadata (run example_host [Load ''A'', Load ''selfish''] (init 0)) ''selfish'')
       = Some (Data (PyList [PyStr ''A'', PyStr ''selfish'']))
   \<and> fst (activate_addon ''selfish'' (run example_host [Load ''A'', Load ''selfish''] (init 0)))
       = Inr False
   \<and> last (logged (snd (activate_addon ''selfish''
        (run example_host [Load ''A'', Load ''selfish''] (init 0)))))
       = Error (ActivateFailed ''selfish'' (ImportError (PyStr ''A'')))
   \<and> last (logged (snd (activate_addon ''selfish''
        (run example_host [Load ''A'', Load ''selfish''] (init 0)))))
       \<noteq> Error (ActivateFailed ''selfish'' (ImportError (PyStr ''selfish'')))
   \<and> loaded_addons (run example_host [Load ''odd''] (init 0)) ''odd'' \<noteq> None
   \<and> active_addons (run example_host [Load ''odd''] (init 0)) ''odd'' = None
   \<and> map_option declared_dependencies
        (addon_metadata (run example_host [Load ''odd''] (init 0)) ''odd'')
       = Some (Data (PyList [PyList [], PyStr ''odd'']))
   \<and> fst (activate_addon ''odd'' (run example_host [Load ''odd''] (init 0))) = Inr False
   \<and> last (logged (snd (activate_addon ''odd'' (run example_host [Load ''odd''] (init 0)))))
       = Error (ActivateFailed ''odd'' (TypeError ''unhashable type''))
   \<and> last (logged (snd (activate_addon ''odd'' (run example_host [Load ''odd''] (init 0)))))
       \<noteq> Error (ActivateFailed ''odd'' (ImportError (PyStr ''odd'')))"
  by (simp add: example_defs manager_defs)

text \<open>
  C10, amended. For a loaded addon that is not active and whose declared dependencies
  contain its own name: \<open>activate_addon\<close> returns \<open>False\<close> and leaves the three
  dictionaries and the world as before. Some declared dependency is not active, and the
  call logs the failure at the first such dependency in declaration order: the
  \<open>ImportError\<close> that names it when it can be hashed, a \<open>TypeError\<close> when it
  cannot; the dependency named is the addon's own name when every dependency declared
  before it is active. Under a host whose metadata for the addon always declares the
  addon itself, no sequence of load, activate, deactivate and reload makes the addon
  active.
\<close>

theorem self_dependency_never_active:
  assumes "loaded_addons s n = Some m" and "active_addons s n = None"
    and "addon_metadata s n = Some md" and "py_iter (declared_dependencies md) = Inr deps"
    and "PyStr n \<in> set deps"
  shows "fst (activate_addon n s) = Inr False
       \<and> registry (snd (activate_addon n s)) = registry s
       \<and> world (snd (activate_addon n s)) = world s
       \<and> (\<exists>d. find (\<lambda>d. \<not> is_active s d) deps = Some d)
       \<and> (\<forall>d. find (\<lambda>d. \<not> is_active s d) deps = Some d \<longrightarrow>
            activate_addon n s
              = (Inr False, emit (Error (ActivateFailed n (dependency_error d))) s))
       \<and> (list_all (is_active s) (takeWhile (\<lambda>d. d \<noteq> PyStr n) deps) \<longrightarrow>
            activate_addon n s
              = (Inr False, emit (Error (ActivateFailed n (ImportError (PyStr n)))) s))
       \<and> (always_declares_itself h n \<longrightarrow> (\<forall>ops. active_addons (run h ops s) n = None))"
proof -
  have cd: "check_dependencies n s = check_each deps (active_addons s)"
    using assms by (simp add: check_dependencies_def)
  have self: "\<not> is_active s (PyStr n)"
    using assms(2) by (simp add: is_active_def py_in_def)
  have blocked: "self_blocked n s"
    using assms by (simp add: self_blocked_def declares_itself_def)
  note act = activate_addon_cases [OF assms(1,2)]
  have p2: "\<exists>d. find (\<lambda>d. \<not> is_active s d) deps = Some d"
    using assms(5) self by (rule find_exists)
  have p3: "activate_addon n s
      = (Inr False, emit (Error (ActivateFailed n (dependency_error d))) s)"
    if "find (\<lambda>d. \<not> is_active s d) deps = Some d" for d
  proof -
    have "check_dependencies n s = Inl (dependency_error d)"
      using that by (simp add: cd check_each_find is_active_def)
    then show ?thesis
      unfolding act by simp
  qed
  from p2 obtain d0 where d0: "find (\<lambda>d. \<not> is_active s d) deps = Some d0"
    by blast
  have p1: "fst (activate_addon n s) = Inr False \<and> registry (snd (activate_addon n s)) = registry s
       \<and> world (snd (activate_addon n s)) = world s"
    unfolding p3 [OF d0] by (simp add: registry_emit world_emit)
  have p4: "activate_addon n s
      = (Inr False, emit (Error (ActivateFailed n (ImportError (PyStr n)))) s)"
    if "list_all (is_active s) (takeWhile (\<lambda>d. d \<noteq> PyStr n) deps)"
    using p3 [OF find_first_self [of "PyStr n" deps "is_active s", OF assms(5) self that]]
    by (simp add: dependency_error_def)
  have p5: "active_addons (run h ops s) n = None" if "always_declares_itself h n" for ops
    using self_blocked_run [OF blocked that, of ops] by (simp add: self_blocked_def)
  from p1 p2 p3 p4 p5 show ?thesis by blast
qed

lemma example_host_selfish: "always_declares_itself example_host ''selfish''"
  by (auto simp: always_declares_itself_def declares_itself_def example_defs manager_defs)

theorem self_dependency_never_active_witness:
  "loaded_addons (run example_host [Load ''A'', Load ''selfish''] (init 0)) ''selfish''
     = Some (example_unit returns_none returns_none [PyStr ''A'', PyStr ''selfish''])
   \<and> active_addons (run example_host [Load ''A'', Load ''selfish''] (init 0)) ''selfish'' = None
   \<and> map_option declared_dependencies
        (addon_metadata (run example_host [Load ''A'', Load ''selfish''] (init 0)) ''selfish'')
       = Some (Data (PyList [PyStr ''A'', PyStr ''selfish'']))
   \<and> PyStr ''selfish'' \<in> set [PyStr ''A'', PyStr ''selfish'']
   \<and> find (\<lambda>d. \<not> is_active (run example_host [Load ''A'', Load ''selfish''] (init 0)) d)
        [PyStr ''A'', PyStr ''selfish''] = Some (PyStr ''A'')
   \<and> activate_addon ''selfish'' (run example_host [Load ''A'', Load ''selfish''] (init 0))
       = (Inr False, emit (Error (ActivateFailed ''selfish'' (ImportError (PyStr ''A''))))
            (run example_host [Load ''A'', Load ''selfish''] (init 0)))
   \<and> registry (snd (activate_addon ''selfish''
          (run example_host [Load ''A'', Load ''selfish''] (init 0))))
       = registry (run example_host [Load ''A'', Load ''selfish''] (init 0))
   \<and> world (snd (activate_addon ''selfish''
          (run example_host [Load ''A'', Load ''selfish''] (init 0))))
       = world (run example_host [Load ''A'', Load ''selfish''] (init 0))
   \<and> always_declares_itself example_host ''selfish''
   \<and> (\<forall>ops. active_addons
          (run example_host ops (run example_host [Load ''A'', Load ''selfish''] (init 0)))
          ''selfish'' = None)
   \<and> list_all (is_active (run example_host [Load ''A'', Activate ''A'', Load ''selfish''] (init 0)))
        (takeWhile (\<lambda>d. d \<noteq> PyStr ''selfish'') [PyStr ''A'', PyStr ''selfish''])
   \<and> activate_addon ''selfish''
        (run example_host [Load ''A'', Activate ''A'', Load ''selfish''] (init 0))
       = (Inr False, emit (Error (ActivateFailed ''selfish'' (ImportError (PyStr ''selfish''))))
            (run example_host [Load ''A'', Activate ''A'', Load ''selfish''] (init 0)))
   \<and> PyStr ''odd'' \<in> set [PyList [], PyStr ''odd'']
   \<and> find (\<lambda>d. \<not> is_active (run example_host [Load ''odd''] (init 0)) d)
        [PyList [], PyStr ''odd''] = Some (PyList [])
   \<and> activate_addon ''odd'' (run example_host [Load ''odd''] (init 0))
       = (Inr False, emit (Error (ActivateFailed ''odd'' (TypeError ''unhashable type'')))
            (run example_host [Load ''odd''] (init 0)))"
proof -
  define s where "s = run example_host [Load ''A'', Load ''selfish''] (init 0)"
  define t where "t = run example_host [Load ''A'', Activate ''A'', Load ''selfish''] (init 0)"
  define u where "u = run example_host [Load ''odd''] (init 0)"
  let ?deps = "[PyStr ''A'', PyStr ''selfish'']"
  let ?m = "example_unit returns_none returns_none ?deps"
  let ?md = "unit_metadata ''selfish'' ?m"
  let ?odeps = "[PyList [], PyStr ''odd'']"
  let ?om = "example_unit returns_none returns_none ?odeps"
  let ?omd = "unit_metadata ''odd'' ?om"
  have s1: "loaded_addons s ''selfish'' = Some ?m" and s2: "active_addons s ''selfish'' = None"
    and s3: "addon_metadata s ''selfish'' = Some ?md"
    unfolding s_def by (simp_all add: example_defs manager_defs)
  have t1: "loaded_addons t ''selfish'' = Some ?m" and t2: "active_addons t ''selfish'' = None"
    and t3: "addon_metadata t ''selfish'' = Some ?md"
    unfolding t_def by (simp_all add: example_defs manager_defs)
  have u1: "loaded_addons u ''odd'' = Some ?om" and u2: "active_addons u ''odd'' = None"
    and u3: "addon_metadata u ''odd'' = Some ?omd"
    unfolding u_def by (simp_all add: example_defs manager_defs)
  have dd: "declared_dependencies ?md = Data (PyList ?deps)"
    and od: "declared_dependencies ?omd = Data (PyList ?odeps)"
    by (simp_all add: example_defs manager_defs)
  have d: "py_iter (declared_dependencies ?md) = Inr ?deps"
    and ud: "py_iter (declared_dependencies ?omd) = Inr ?odeps"
    by (simp_all add: dd od)
  have mem: "PyStr ''selfish'' \<in> set ?deps" and umem: "PyStr ''odd'' \<in> set ?odeps"
    by simp_all
  have f: "find (\<lambda>d. \<not> is_active s d) ?deps = Some (PyStr ''A'')"
    unfolding s_def by (simp add: is_active_def example_defs manager_defs)
  have uf: "find (\<lambda>d. \<not> is_active u d) ?odeps = Some (PyList [])"
    unfolding u_def by (simp add: is_active_def example_defs manager_defs)
  have g: "list_all (is_active t) (takeWhile (\<lambda>d. d \<noteq> PyStr ''selfish'') ?deps)"
    unfolding t_def by (simp add: is_active_def example_defs manager_defs)
  have m1: "map_option declared_dependencies (addon_metadata s ''selfish'')
      = Some (Data (PyList ?deps))"
    by (simp only: s3 option.map dd)
  have de1: "dependency_error (PyStr ''A'') = ImportError (PyStr ''A'')"
    and de2: "dependency_error (PyList []) = TypeError ''unhashable type''"
    by (simp_all add: dependency_error_def)
  note hst = example_host_selfish
  note a = self_dependency_never_active [OF s1 s2 s3 d mem, of example_host]
  note b = self_dependency_never_active [OF t1 t2 t3 d mem, of example_host]
  note c = self_dependency_never_active [OF u1 u2 u3 ud umem, of example_host]
  have a1: "activate_addon ''selfish'' s
      = (Inr False, emit (Error (ActivateFailed ''selfish'' (ImportError (PyStr ''A'')))) s)"
    using a f unfolding de1 [symmetric] by blast
  have a2: "registry (snd (activate_addon ''selfish'' s)) = registry s
      \<and> world (snd (activate_addon ''selfish'' s)) = world s"
    using a by blast
  have a3: "\<forall>ops. active_addons (run example_host ops s) ''selfish'' = None"
    using a hst by blast
  have b1: "activate_addon ''selfish'' t
      = (Inr False, emit (Error (ActivateFailed ''selfish'' (ImportError (PyStr ''selfish'')))) t)"
    using b g by blast
  have c1: "activate_addon ''odd'' u
      = (Inr False, emit (Error (ActivateFailed ''odd'' (TypeError ''unhashable type''))) u)"
    using c uf unfolding de2 [symmetric] by blast
  have "loaded_addons s ''selfish'' = Some ?m
   \<and> active_addons s ''selfish'' = None
   \<and> map_option declared_dependencies (addon_metadata s ''selfish'') = Some (Data (PyList ?deps))
   \<and> PyStr ''selfish'' \<in> set ?deps
   \<and> find (\<lambda>d. \<not> is_active s d) ?deps = Some (PyStr ''A'')
   \<and> activate_addon ''selfish'' s
       = (Inr False, emit (Error (ActivateFailed ''selfish'' (ImportError (PyStr ''A'')))) s)
   \<and> registry (snd (activate_addon ''selfish'' s)) = registry s
   \<and> world (snd (activate_addon ''selfish'' s)) = world s
   \<and> always_declares_itself example_host ''selfish''
   \<and> (\<forall>ops. active_addons (run example_host ops s) ''selfish'' = None)
   \<and> list_all (is_active t) (takeWhile (\<lambda>d. d \<noteq> PyStr ''selfish'') ?deps)
   \<and> activate_addon ''selfish'' t
       = (Inr False, emit (Error (ActivateFailed ''selfish'' (ImportError (PyStr ''selfish'')))) t)
   \<and> PyStr ''odd'' \<in> set ?odeps
   \<and> find (\<lambda>d. \<not> is_active u d) ?odeps = Some (PyList [])
   \<and> activate_addon ''odd'' u
       = (Inr False, emit (Error (ActivateFailed ''odd'' (TypeError ''unhashable type''))) u)"
    using s1 s2 m1 mem f a1 a2 hst a3 g b1 umem uf c1 by blast
  then show ?thesis
    unfolding s_def t_def u_def .
qed

subsection \<open>Reload after a failed shutdown\<close>

text \<open>
  C1. The claim says that after any sequence of operations from the empty registry
  every active name is loaded. \<open>reload_addon\<close> ignores the result of
  \<open>deactivate_addon\<close>: when \<open>shutdown\<close> raises, the addon stays in
  \<open>active_addons\<close> while its loaded unit and its metadata are deleted; when the load
  that follows fails too, the addon is active without being loaded. This happens for
  \<open>stubborn\<close> after load, activate, reload.
\<close>

theorem reload_breaks_registry_consistency:
  "active_addons (run example_host [Load ''stubborn'', Activate ''stubborn'', Reload ''stubborn''] (init 0))
      ''stubborn'' \<noteq> None
   \<and> loaded_addons (run example_host [Load ''stubborn'', Activate ''stubborn'', Reload ''stubborn''] (init 0))
      ''stubborn'' = None
   \<and> addon_metadata (run example_host [Load ''stubborn'', Activate ''stubborn'', Reload ''stubborn''] (init 0))
      ''stubborn'' = None"
  by (simp add: example_defs manager_defs)

text \<open>
  C2. The claim says that a reload whose deactivation step fails stops there and
  leaves the registry unchanged. For the active addon \<open>stubborn\<close>, whose
  \<open>shutdown\<close> raises, \<open>reload_addon\<close> goes on: it imports the module again (the
  world counts ten for the call of \<open>shutdown\<close> and one for the import) and, the load
  failing, returns \<open>False\<close> with the loaded unit and the metadata gone.
\<close>

theorem reload_continues_after_failed_shutdown:
  "loaded_addons (run example_host [Load ''stubborn'', Activate ''stubborn''] (init 0)) ''stubborn'' \<noteq> None
   \<and> addon_metadata (run example_host [Load ''stubborn'', Activate ''stubborn''] (init 0)) ''stubborn'' \<noteq> None
   \<and> active_addons (run example_host [Load ''stubborn'', Activate ''stubborn''] (init 0)) ''stubborn'' \<noteq> None
   \<and> fst (deactivate_addon ''stubborn''
        (run example_host [Load ''stubborn'', Activate ''stubborn''] (init 0))) = Inr False
   \<and> fst (reload_addon example_host ''stubborn''
        (run example_host [Load ''stubborn'', Activate ''stubborn''] (init 0))) = Inr False
   \<and> loaded_addons (snd (reload_addon example_host ''stubborn''
        (run example_host [Load ''stubborn'', Activate ''stubborn''] (init 0)))) ''stubborn'' = None
   \<and> addon_metadata (snd (reload_addon example_host ''stubborn''
        (run example_host [Load ''stubborn'', Activate ''stubborn''] (init 0)))) ''stubborn'' = None
   \<and> world (snd (reload_addon example_host ''stubborn''
        (run example_host [Load ''stubborn'', Activate ''stubborn''] (init 0)))) = 22
   \<and> registry (snd (reload_addon example_host ''stubborn''
        (run example_host [Load ''stubborn'', Activate ''stubborn''] (init 0))))
      \<noteq> registry (run example_host [Load ''stubborn'', Activate ''stubborn''] (init 0))"
  by (simp add: example_defs manager_defs fun_eq_iff)

text \<open>
  C8. The claim says that a reload whose load step fails leaves the addon with no
  loaded unit, no metadata and no active entry. For \<open>stubborn\<close> the deactivation
  fails, then the load fails, and \<open>reload_addon\<close> returns \<open>False\<close> with the
  addon still in \<open>active_addons\<close>: \<open>execute_addon_function\<close> still dispatches
  into the old unit.
\<close>

theorem failed_reload_keeps_active_entry:
  "logged (snd (reload_addon example_host ''stubborn''
        (run example_host [Load ''stubborn'', Activate ''stubborn''] (init 0))))
     = logged (run example_host [Load ''stubborn'', Activate ''stubborn''] (init 0))
       @ [Error (DeactivateFailed ''stubborn'' (OtherError ''RuntimeError'')),
          Error (LoadFailed ''stubborn'' (TypeError ''int object is not iterable''))]
   \<and> fst (reload_addon example_host ''stubborn''
        (run example_host [Load ''stubborn'', Activate ''stubborn''] (init 0))) = Inr False
   \<and> active_addons (snd (reload_addon example_host ''stubborn''
        (run example_host [Load ''stubborn'', Activate ''stubborn''] (init 0)))) ''stubborn''
       = Some (example_unit returns_none raises_error [])
   \<and> fst (execute_addon_function ''stubborn'' ''initialize'' [] []
        (snd (reload_addon example_host ''stubborn''
          (run example_host [Load ''stubborn'', Activate ''stubborn''] (init 0))))) = Inr PyNone"
  by (simp add: example_defs manager_defs execute_addon_function_def)

subsection \<open>Calling into an active unit\<close>

text \<open>
  C9. The claim says that \<open>execute_addon_function\<close> fails with the error for a
  missing capability whenever the unit has no callable of the given name. The code tests
  \<open>hasattr\<close> only, where \<open>load_addon\<close> tests \<open>callable\<close> as well: for an
  attribute that is not callable, such as \<open>__doc__\<close> of the active unit
  \<open>plain\<close>, the call is attempted and raises \<open>TypeError\<close>, not
  \<open>AttributeError\<close>.
\<close>

theorem execute_data_attribute_type_error:
  "active_addons (run example_host [Load ''plain'', Activate ''plain''] (init 0)) ''plain''
     = Some (example_unit returns_none returns_none [])
   \<and> \<not> has_callable (example_unit returns_none returns_none []) ''__doc__''
   \<and> fst (execute_addon_function ''plain'' ''__doc__'' [] []
        (run example_host [Load ''plain'', Activate ''plain''] (init 0)))
       = Inl (TypeError ''object is not callable'')"
  by (simp add: example_defs manager_defs execute_addon_function_def)

text \<open>
  The other cases of \<open>execute_addon_function\<close>: a name that is not active raises
  \<open>ValueError\<close>; a missing attribute raises \<open>AttributeError\<close>; a callable is
  called in the world and its result or exception is passed on. The three dictionaries
  are unchanged in every case.
\<close>

theorem execute_addon_function_cases:
  "(active_addons s n = None \<longrightarrow>
      execute_addon_function n f args kwargs s = (Inl (ValueError ''Addon is not active.''), s))
   \<and> (active_addons s n = Some m \<and> m f = None \<longrightarrow>
      execute_addon_function n f args kwargs s
        = (Inl (AttributeError ''Function not found in addon.''), s))
   \<and> (active_addons s n = Some m \<and> m f = Some (Callable c) \<longrightarrow>
      fst (execute_addon_function n f args kwargs s) = fst (c args kwargs (world s))
      \<and> world (snd (execute_addon_function n f args kwargs s)) = snd (c args kwargs (world s)))
   \<and> registry (snd (execute_addon_function n f args kwargs s)) = registry s"
  by (auto simp: execute_addon_function_def registry_def
      split: option.splits pyobj.splits prod.splits)

theorem execute_addon_function_cases_witness:
  "active_addons (init 0 :: nat state) ''plain'' = None
   \<and> execute_addon_function ''plain'' ''shutdown'' [] [] (init 0 :: nat state)
       = (Inl (ValueError ''Addon is not active.''), init 0)
   \<and> active_addons (run example_host [Load ''plain'', Activate ''plain''] (init 0)) ''plain''
       = Some (example_unit returns_none returns_none [])
   \<and> example_unit returns_none returns_none [] ''missing_fn'' = None
   \<and> execute_addon_function ''plain'' ''missing_fn'' [] []
        (run example_host [Load ''plain'', Activate ''plain''] (init 0))
       = (Inl (AttributeError ''Function not found in addon.''),
          run example_host [Load ''plain'', Activate ''plain''] (init 0))
   \<and> example_unit returns_none returns_none [] ''shutdown'' = Some (Callable returns_none)
   \<and> fst (execute_addon_function ''plain'' ''shutdown'' [] []
        (run example_host [Load ''plain'', Activate ''plain''] (init 0))) = Inr PyNone
   \<and> registry (snd (execute_addon_function ''plain'' ''shutdown'' [] []
        (run example_host [Load ''plain'', Activate ''plain''] (init 0))))
       = registry (run example_host [Load ''plain'', Activate ''plain''] (init 0))"
proof -
  let ?u = "example_unit returns_none returns_none []"
  define s0 where "s0 = (init 0 :: nat state)"
  define s where "s = run example_host [Load ''plain'', Activate ''plain''] (init 0)"
  have i: "active_addons s0 ''plain'' = None"
    unfolding s0_def by (simp add: init_def)
  have a: "active_addons s ''plain'' = Some ?u"
    unfolding s_def by (simp add: example_defs manager_defs)
  have m: "?u ''missing_fn'' = None" and c: "?u ''shutdown'' = Some (Callable returns_none)"
    by (simp_all add: example_defs)
  have r: "fst (returns_none [] [] (world s)) = Inr PyNone"
    by (simp add: returns_none_def)
  note x0 = execute_addon_function_cases [where s = s0 and n = "''plain''" and f = "''shutdown''" and args = "[]" and kwargs = "[]"]
  note x1 = execute_addon_function_cases [where s = s and n = "''plain''" and f = "''missing_fn''" and args = "[]"
      and kwargs = "[]" and m = ?u]
  note x2 = execute_addon_function_cases [where s = s and n = "''plain''" and f = "''shutdown''" and args = "[]"
      and kwargs = "[]" and m = ?u and c = returns_none]
  have y0: "execute_addon_function ''plain'' ''shutdown'' [] [] s0
       = (Inl (ValueError ''Addon is not active.''), s0)"
    using x0 i by blast
  have y1: "execute_addon_function ''plain'' ''missing_fn'' [] [] s
       = (Inl (AttributeError ''Function not found in addon.''), s)"
    using x1 a m by blast
  have y2: "fst (execute_addon_function ''plain'' ''shutdown'' [] [] s) = Inr PyNone"
    using x2 a c r by simp
  have y3: "registry (snd (execute_addon_function ''plain'' ''shutdown'' [] [] s)) = registry s"
    using x2 by blast
  have "active_addons s0 ''plain'' = None
   \<and> execute_addon_function ''plain'' ''shutdown'' [] [] s0
       = (Inl (ValueError ''Addon is not active.''), s0)
   \<and> active_addons s ''plain'' = Some ?u
   \<and> ?u ''missing_fn'' = None
   \<and> execute_addon_function ''plain'' ''missing_fn'' [] [] s
       = (Inl (AttributeError ''Function not found in addon.''), s)
   \<and> ?u ''shutdown'' = Some (Callable returns_none)
   \<and> fst (execute_addon_function ''plain'' ''shutdown'' [] [] s) = Inr PyNone
   \<and> registry (snd (execute_addon_function ''plain'' ''shutdown'' [] [] s)) = registry s"
    using i y0 a m y1 c y2 y3 by blast
  then show ?thesis
    unfolding s0_def s_def .
qed

subsection \<open>Consistency of the registry\<close>

lemma loaded_has_metadata_emit: "loaded_has_metadata (emit e s) = loaded_has_metadata s"
  by (simp add: loaded_has_metadata_def emit_def)

lemma loaded_has_metadata_load:
  assumes "loaded_has_metadata s"
  shows "loaded_has_metadata (snd (load_addon h n s))"
proof (cases "fst (load_addon h n s) = Inr True")
  case True
  from load_addon_success_metadata [OF True] obtain m md where
    l: "loaded_addons (snd (load_addon h n s)) = (loaded_addons s)(n \<mapsto> m)" and
    d: "addon_metadata (snd (load_addon h n s)) = (addon_metadata s)(n \<mapsto> md)"
    by blast
  show ?thesis
    using assms unfolding loaded_has_metadata_def l d by auto
next
  case False
  then have "registry (snd (load_addon h n s)) = registry s"
    by (rule load_addon_failure_frame)
  then show ?thesis
    using assms by (simp add: loaded_has_metadata_def registry_def)
qed

lemma loaded_has_metadata_activate:
  "loaded_has_metadata s \<Longrightarrow> loaded_has_metadata (snd (activate_addon n s))"
  by (simp add: loaded_has_metadata_def activate_addon_def emit_def except_Exception_def
      split: option.splits sum.splits prod.splits)

lemma loaded_has_metadata_deactivate:
  "loaded_has_metadata s \<Longrightarrow> loaded_has_metadata (snd (deactivate_addon n s))"
  by (simp add: loaded_has_metadata_def deactivate_addon_def emit_def except_Exception_def
      split: option.splits sum.splits prod.splits)

lemma loaded_has_metadata_forget:
  "loaded_has_metadata s \<Longrightarrow>
   loaded_has_metadata (s\<lparr>loaded_addons := (loaded_addons s)(n := None)\<rparr>) \<and>
   loaded_has_metadata (s\<lparr>loaded_addons := (loaded_addons s)(n := None),
                          addon_metadata := (addon_metadata s)(n := None)\<rparr>)"
  by (auto simp: loaded_has_metadata_def)

lemma loaded_has_metadata_reload:
  assumes "loaded_has_metadata s"
  shows "loaded_has_metadata (snd (reload_addon h n s))"
proof (cases "loaded_addons s n = None")
  case True
  then show ?thesis
    using assms by (simp add: reload_addon_def loaded_has_metadata_emit)
next
  case False
  obtain q1 s1 where r1:
    "(if active_addons s n \<noteq> None then deactivate_addon n s else (Inr False, s)) = (q1, s1)"
    by (cases "if active_addons s n \<noteq> None then deactivate_addon n s else (Inr False, s)")
  define s3 where "s3 = s1\<lparr>loaded_addons := (loaded_addons s1)(n := None),
                             addon_metadata := (addon_metadata s1)(n := None)\<rparr>"
  obtain q4 s4 where l4: "load_addon h n s3 = (q4, s4)"
    by (cases "load_addon h n s3")
  note st = reload_addon_steps [OF False r1 l4 [unfolded s3_def]]
  have "s1 = s \<or> s1 = snd (deactivate_addon n s)"
    using r1 by (auto split: if_splits)
  then have c1: "loaded_has_metadata s1"
    using assms loaded_has_metadata_deactivate [of s n] by auto
  have c2: "loaded_has_metadata (s1\<lparr>loaded_addons := (loaded_addons s1)(n := None)\<rparr>)"
    and c3: "loaded_has_metadata s3"
    using loaded_has_metadata_forget [OF c1] by (simp_all add: s3_def)
  have c4: "loaded_has_metadata s4"
    using loaded_has_metadata_load [OF c3, of h n] l4 by simp
  have c5: "loaded_has_metadata (snd (activate_addon n s4))"
    using c4 by (rule loaded_has_metadata_activate)
  show ?thesis
    unfolding st using c1 c2 c4 c5
    by (cases q1; cases q4) (auto split: bool.splits)
qed

lemma loaded_has_metadata_perform:
  "loaded_has_metadata s \<Longrightarrow> loaded_has_metadata (perform h x s)"
  by (cases x)
    (simp_all add: loaded_has_metadata_load loaded_has_metadata_activate
      loaded_has_metadata_deactivate loaded_has_metadata_reload)

lemma loaded_has_metadata_run:
  "loaded_has_metadata s \<Longrightarrow> loaded_has_metadata (run h xs s)"
  by (induction xs arbitrary: s) (simp_all add: loaded_has_metadata_perform)

text \<open>
  After every sequence of operations from the empty registry, every loaded name has
  metadata.
\<close>

theorem loaded_addons_have_metadata:
  "dom (loaded_addons (run h xs (init w))) \<subseteq> dom (addon_metadata (run h xs (init w)))"
proof -
  have "loaded_has_metadata (init w)"
    by (simp add: loaded_has_metadata_def init_def)
  then have "loaded_has_metadata (run h xs (init w))"
    by (rule loaded_has_metadata_run)
  then show ?thesis
    by (simp add: loaded_has_metadata_def)
qed

lemma consistent_emit: "consistent (emit e s) = consistent s"
  by (simp add: consistent_def emit_def)

lemma consistent_load:
  assumes "consistent s"
  shows "consistent (snd (load_addon h n s))"
proof (cases "fst (load_addon h n s) = Inr True")
  case True
  from load_addon_success_metadata [OF True] obtain m md where
    l: "loaded_addons (snd (load_addon h n s)) = (loaded_addons s)(n \<mapsto> m)" and
    d: "addon_metadata (snd (load_addon h n s)) = (addon_metadata s)(n \<mapsto> md)" and
    a: "active_addons (snd (load_addon h n s)) = active_addons s"
    by blast
  show ?thesis
    using assms unfolding consistent_def l d a by auto
next
  case False
  then have "registry (snd (load_addon h n s)) = registry s"
    by (rule load_addon_failure_frame)
  then show ?thesis
    using assms by (simp add: consistent_def registry_def)
qed

lemma activate_addon_shape:
  "loaded_addons (snd (activate_addon n s)) = loaded_addons s \<and>
   addon_metadata (snd (activate_addon n s)) = addon_metadata s \<and>
   (active_addons (snd (activate_addon n s)) = active_addons s \<and>
      fst (activate_addon n s) \<noteq> Inr True \<or>
    (\<exists>m. loaded_addons s n = Some m \<and> fst (activate_addon n s) = Inr True \<and>
         active_addons (snd (activate_addon n s)) = (active_addons s)(n \<mapsto> m)))"
  by (simp add: activate_addon_def emit_def except_Exception_def
      split: option.splits sum.splits prod.splits)

lemma deactivate_addon_shape:
  "loaded_addons (snd (deactivate_addon n s)) = loaded_addons s \<and>
   addon_metadata (snd (deactivate_addon n s)) = addon_metadata s \<and>
   (active_addons (snd (deactivate_addon n s)) = active_addons s \<and>
      fst (deactivate_addon n s) \<noteq> Inr True \<or>
    active_addons (snd (deactivate_addon n s)) = (active_addons s)(n := None) \<and>
      fst (deactivate_addon n s) = Inr True)"
  by (simp add: deactivate_addon_def emit_def except_Exception_def
      split: option.splits sum.splits prod.splits)

lemma consistent_activate:
  assumes "consistent s"
  shows "consistent (snd (activate_addon n s))"
proof -
  note sh = activate_addon_shape [of n s]
  from sh have l: "loaded_addons (snd (activate_addon n s)) = loaded_addons s"
    and m: "addon_metadata (snd (activate_addon n s)) = addon_metadata s"
    by simp_all
  from sh consider "active_addons (snd (activate_addon n s)) = active_addons s"
    | u where "loaded_addons s n = Some u"
      and "active_addons (snd (activate_addon n s)) = (active_addons s)(n \<mapsto> u)"
    by blast
  then show ?thesis
  proof cases
    case 1
    with assms l m show ?thesis by (simp add: consistent_def)
  next
    case 2
    with assms l m show ?thesis by (auto simp: consistent_def)
  qed
qed

lemma consistent_deactivate:
  assumes "consistent s"
  shows "consistent (snd (deactivate_addon n s))"
proof -
  note sh = deactivate_addon_shape [of n s]
  from sh have l: "loaded_addons (snd (deactivate_addon n s)) = loaded_addons s"
    and m: "addon_metadata (snd (deactivate_addon n s)) = addon_metadata s"
    by simp_all
  from sh consider "active_addons (snd (deactivate_addon n s)) = active_addons s"
    | "active_addons (snd (deactivate_addon n s)) = (active_addons s)(n := None)"
    by blast
  then show ?thesis
  proof cases
    case 1
    with assms l m show ?thesis by (simp add: consistent_def)
  next
    case 2
    with assms l m show ?thesis by (auto simp: consistent_def)
  qed
qed

lemma deactivate_success_inactive:
  "fst (deactivate_addon n s) = Inr True \<Longrightarrow> active_addons (snd (deactivate_addon n s)) n = None"
  using deactivate_addon_shape [of n s] by auto

lemma consistent_forget:
  "consistent s \<Longrightarrow> active_addons s n = None \<Longrightarrow>
   consistent (s\<lparr>loaded_addons := (loaded_addons s)(n := None)\<rparr>) \<and>
   consistent (s\<lparr>loaded_addons := (loaded_addons s)(n := None),
                 addon_metadata := (addon_metadata s)(n := None)\<rparr>)"
  by (auto simp: consistent_def)

lemma consistent_reload:
  assumes "consistent s"
    and "active_addons s n = None \<or> fst (deactivate_addon n s) \<noteq> Inr False"
  shows "consistent (snd (reload_addon h n s))"
proof (cases "loaded_addons s n = None")
  case True
  then show ?thesis
    using assms(1) by (simp add: reload_addon_def consistent_emit)
next
  case False
  obtain q1 s1 where r1:
    "(if active_addons s n \<noteq> None then deactivate_addon n s else (Inr False, s)) = (q1, s1)"
    by (cases "if active_addons s n \<noteq> None then deactivate_addon n s else (Inr False, s)")
  define s3 where "s3 = s1\<lparr>loaded_addons := (loaded_addons s1)(n := None),
                             addon_metadata := (addon_metadata s1)(n := None)\<rparr>"
  obtain q4 s4 where l4: "load_addon h n s3 = (q4, s4)"
    by (cases "load_addon h n s3")
  note st = reload_addon_steps [OF False r1 l4 [unfolded s3_def]]
  have "s1 = s \<or> s1 = snd (deactivate_addon n s)"
    using r1 by (auto split: if_splits)
  then have c1: "consistent s1"
    using assms(1) consistent_deactivate [of s n] by auto
  show ?thesis
  proof (cases q1)
    case (Inl e)
    then show ?thesis
      unfolding st using c1 by simp
  next
    case (Inr b)
    have i1: "active_addons s1 n = None"
    proof (cases "active_addons s n = None")
      case True
      with r1 show ?thesis by simp
    next
      case act: False
      with r1 have d: "deactivate_addon n s = (q1, s1)"
        by simp
      with assms(2) act Inr have "fst (deactivate_addon n s) = Inr True"
        by (cases b) auto
      from deactivate_success_inactive [OF this] d show ?thesis
        by simp
    qed
    have c2: "consistent (s1\<lparr>loaded_addons := (loaded_addons s1)(n := None)\<rparr>)"
      and c3: "consistent s3"
      using consistent_forget [OF c1 i1] by (simp_all add: s3_def)
    have c4: "consistent s4"
      using consistent_load [OF c3, of h n] l4 by simp
    have c5: "consistent (snd (activate_addon n s4))"
      using c4 by (rule consistent_activate)
    show ?thesis
      unfolding st using Inr c2 c4 c5
      by (cases q4) (auto split: bool.splits)
  qed
qed

text \<open>
  Every operation keeps the registry consistent, except a reload of an active addon whose
  deactivation returns \<open>False\<close>.
\<close>

theorem consistent_perform:
  assumes "consistent s"
    and "\<forall>n. x = Reload n \<and> active_addons s n \<noteq> None
           \<longrightarrow> fst (deactivate_addon n s) \<noteq> Inr False"
  shows "consistent (perform h x s)"
proof (cases x)
  case (Reload n)
  with assms(2) have "active_addons s n = None \<or> fst (deactivate_addon n s) \<noteq> Inr False"
    by blast
  with assms(1) Reload show ?thesis
    by (simp add: consistent_reload)
qed (simp_all add: assms(1) consistent_load consistent_activate consistent_deactivate)

theorem consistent_perform_witness:
  "consistent (run example_host [Load ''A'', Activate ''A''] (init 0))
   \<and> active_addons (run example_host [Load ''A'', Activate ''A''] (init 0)) ''A'' \<noteq> None
   \<and> fst (deactivate_addon ''A'' (run example_host [Load ''A'', Activate ''A''] (init 0)))
       = Inr True
   \<and> consistent (perform example_host (Reload ''A'')
        (run example_host [Load ''A'', Activate ''A''] (init 0)))"
proof -
  define s where "s = run example_host [Load ''A'', Activate ''A''] (init 0)"
  have a: "consistent s"
    unfolding s_def by (simp add: consistent_def example_defs manager_defs)
  have b: "active_addons s ''A'' \<noteq> None" and c: "fst (deactivate_addon ''A'' s) = Inr True"
    unfolding s_def by (simp_all add: example_defs manager_defs)
  have d: "\<forall>n. Reload ''A'' = Reload n \<and> active_addons s n \<noteq> None
      \<longrightarrow> fst (deactivate_addon n s) \<noteq> Inr False"
    using c by simp
  from a b c consistent_perform [OF a d, of example_host]
  have "consistent s \<and> active_addons s ''A'' \<noteq> None \<and> fst (deactivate_addon ''A'' s) = Inr True
    \<and> consistent (perform example_host (Reload ''A'') s)"
    by blast
  then show ?thesis unfolding s_def .
qed

lemma except_Exception_raises:
  "fst (except_Exception msg e s) = Inl e' \<Longrightarrow> \<not> is_exception e'"
  by (auto simp: except_Exception_def split: if_splits)

lemma load_addon_raises:
  "fst (load_addon h n s) = Inl e \<Longrightarrow> \<not> is_exception e"
  by (auto simp: load_addon_def split: if_splits prod.splits sum.splits
      dest: except_Exception_raises)

lemma activate_addon_raises:
  "fst (activate_addon n s) = Inl e \<Longrightarrow> \<not> is_exception e"
  by (auto simp: activate_addon_def split: if_splits option.splits prod.splits sum.splits
      dest: except_Exception_raises)

text \<open>
  A reload of a loaded addon that is not active, or whose deactivation succeeds. When the
  addon is not loaded afterwards (the load failed), the result is not \<open>True\<close> and the
  addon has no metadata and no active entry. When the result is \<open>True\<close>, the addon is
  loaded, and active exactly when it was active before. When the result is not
  \<open>True\<close> and the addon is loaded, it was active before and is not active now (the
  activation failed). The call returns a truth value, unless an exception outside
  \<open>Exception\<close> leaves it.
\<close>

theorem reload_after_clean_deactivation:
  assumes "loaded_addons s n \<noteq> None" and "addon_metadata s n \<noteq> None"
    and "active_addons s n = None \<or> fst (deactivate_addon n s) = Inr True"
  shows "(loaded_addons (snd (reload_addon h n s)) n = None \<longrightarrow>
            fst (reload_addon h n s) \<noteq> Inr True
            \<and> addon_metadata (snd (reload_addon h n s)) n = None
            \<and> active_addons (snd (reload_addon h n s)) n = None)
       \<and> (fst (reload_addon h n s) = Inr True \<longrightarrow>
            loaded_addons (snd (reload_addon h n s)) n \<noteq> None
            \<and> addon_metadata (snd (reload_addon h n s)) n \<noteq> None
            \<and> (active_addons (snd (reload_addon h n s)) n \<noteq> None
                 \<longleftrightarrow> active_addons s n \<noteq> None))
       \<and> (fst (reload_addon h n s) \<noteq> Inr True
            \<and> loaded_addons (snd (reload_addon h n s)) n \<noteq> None \<longrightarrow>
            active_addons s n \<noteq> None \<and> active_addons (snd (reload_addon h n s)) n = None)
       \<and> ((\<exists>b. fst (reload_addon h n s) = Inr b)
            \<or> (\<exists>e. fst (reload_addon h n s) = Inl e \<and> \<not> is_exception e))"
proof -
  obtain q1 s1 where r1:
    "(if active_addons s n \<noteq> None then deactivate_addon n s else (Inr False, s)) = (q1, s1)"
    by (cases "if active_addons s n \<noteq> None then deactivate_addon n s else (Inr False, s)")
  define s3 where "s3 = s1\<lparr>loaded_addons := (loaded_addons s1)(n := None),
                             addon_metadata := (addon_metadata s1)(n := None)\<rparr>"
  obtain q4 s4 where l4: "load_addon h n s3 = (q4, s4)"
    by (cases "load_addon h n s3")
  define r where "r = reload_addon h n s"
  have q1: "\<exists>b. q1 = Inr b" and i1: "active_addons s1 n = None"
    and md1: "addon_metadata s1 n \<noteq> None"
  proof -
    show "\<exists>b. q1 = Inr b"
      using r1 assms(3) by (cases "active_addons s n = None") auto
    show "active_addons s1 n = None"
    proof (cases "active_addons s n = None")
      case True
      with r1 show ?thesis by simp
    next
      case False
      with r1 assms(3) have "fst (deactivate_addon n s) = Inr True"
        and "s1 = snd (deactivate_addon n s)"
        by auto
      with deactivate_success_inactive [of n s] show ?thesis by simp
    qed
    have "s1 = s \<or> s1 = snd (deactivate_addon n s)"
      using r1 by (auto split: if_splits)
    then show "addon_metadata s1 n \<noteq> None"
      using assms(2) deactivate_addon_shape [of n s] by auto
  qed
  have e3: "loaded_addons s3 n = None \<and> addon_metadata s3 n = None \<and> active_addons s3 n = None"
    using i1 by (simp add: s3_def)
  have unf: "r = (case q4 of
                  Inl e \<Rightarrow> (Inl e, s4)
                | Inr True \<Rightarrow>
                    (if active_addons s n \<noteq> None then activate_addon n s4 else (Inr True, s4))
                | Inr False \<Rightarrow> (Inr False, s4))"
    unfolding r_def reload_addon_steps [OF assms(1) r1 l4 [unfolded s3_def]]
    using q1 md1 by auto
  have q4: "fst (load_addon h n s3) = q4" and s4: "snd (load_addon h n s3) = s4"
    using l4 by simp_all
  have goal: "(loaded_addons (snd r) n = None \<longrightarrow>
            fst r \<noteq> Inr True \<and> addon_metadata (snd r) n = None \<and> active_addons (snd r) n = None)
       \<and> (fst r = Inr True \<longrightarrow>
            loaded_addons (snd r) n \<noteq> None \<and> addon_metadata (snd r) n \<noteq> None
            \<and> (active_addons (snd r) n \<noteq> None \<longleftrightarrow> active_addons s n \<noteq> None))
       \<and> (fst r \<noteq> Inr True \<and> loaded_addons (snd r) n \<noteq> None \<longrightarrow>
            active_addons s n \<noteq> None \<and> active_addons (snd r) n = None)
       \<and> ((\<exists>b. fst r = Inr b) \<or> (\<exists>e. fst r = Inl e \<and> \<not> is_exception e))"
  proof (cases "q4 = Inr True")
    case False
    then have "fst (load_addon h n s3) \<noteq> Inr True"
      using q4 by simp
    from load_addon_failure_frame [OF this] e3 s4
    have n4: "loaded_addons s4 n = None \<and> addon_metadata s4 n = None \<and> active_addons s4 n = None"
      by (simp add: registry_def)
    show ?thesis
    proof (cases q4)
      case (Inl e)
      with q4 have "\<not> is_exception e"
        using load_addon_raises [of h n s3 e] by simp
      with Inl unf n4 show ?thesis by auto
    next
      case (Inr b)
      with False have "b = False" by simp
      with Inr unf n4 show ?thesis by auto
    qed
  next
    case True
    then have ok: "fst (load_addon h n s3) = Inr True"
      using q4 by simp
    from load_addon_success_metadata [OF ok] e3 s4
    have e4: "loaded_addons s4 n \<noteq> None \<and> addon_metadata s4 n \<noteq> None \<and> active_addons s4 n = None"
      by auto
    show ?thesis
    proof (cases "active_addons s n \<noteq> None")
      case False
      with True unf e4 show ?thesis by auto
    next
      case was: True
      with True unf have ra: "r = activate_addon n s4"
        by simp
      note sh = activate_addon_shape [of n s4]
      show ?thesis
      proof (cases "fst (activate_addon n s4) = Inr True")
        case True
        with sh e4 was show ?thesis
          unfolding ra by auto
      next
        case False
        have "(\<exists>b. fst (activate_addon n s4) = Inr b)
            \<or> (\<exists>e. fst (activate_addon n s4) = Inl e \<and> \<not> is_exception e)"
          using activate_addon_raises [of n s4]
          by (cases "fst (activate_addon n s4)") auto
        with False sh e4 was show ?thesis
          unfolding ra by auto
      qed
    qed
  qed
  then show ?thesis
    unfolding r_def .
qed

theorem reload_after_clean_deactivation_witness:
  "loaded_addons (run example_host [Load ''A'', Activate ''A''] (init 0)) ''A'' \<noteq> None
   \<and> addon_metadata (run example_host [Load ''A'', Activate ''A''] (init 0)) ''A'' \<noteq> None
   \<and> fst (deactivate_addon ''A'' (run example_host [Load ''A'', Activate ''A''] (init 0)))
       = Inr True
   \<and> fst (reload_addon example_host ''A''
        (run example_host [Load ''A'', Activate ''A''] (init 0))) = Inr True
   \<and> loaded_addons (snd (reload_addon example_host ''A''
        (run example_host [Load ''A'', Activate ''A''] (init 0)))) ''A'' \<noteq> None
   \<and> active_addons (snd (reload_addon example_host ''A''
        (run example_host [Load ''A'', Activate ''A''] (init 0)))) ''A'' \<noteq> None
   \<and> loaded_addons (run example_host [Load ''stubborn''] (init 0)) ''stubborn'' \<noteq> None
   \<and> addon_metadata (run example_host [Load ''stubborn''] (init 0)) ''stubborn'' \<noteq> None
   \<and> active_addons (run example_host [Load ''stubborn''] (init 0)) ''stubborn'' = None
   \<and> loaded_addons (snd (reload_addon example_host ''stubborn''
        (run example_host [Load ''stubborn''] (init 0)))) ''stubborn'' = None
   \<and> fst (reload_addon example_host ''stubborn''
        (run example_host [Load ''stubborn''] (init 0))) \<noteq> Inr True
   \<and> addon_metadata (snd (reload_addon example_host ''stubborn''
        (run example_host [Load ''stubborn''] (init 0)))) ''stubborn'' = None
   \<and> active_addons (snd (reload_addon example_host ''stubborn''
        (run example_host [Load ''stubborn''] (init 0)))) ''stubborn'' = None"
proof -
  define s where "s = run example_host [Load ''A'', Activate ''A''] (init 0)"
  define t where "t = run example_host [Load ''stubborn''] (init 0)"
  have s1: "loaded_addons s ''A'' \<noteq> None" and s2: "addon_metadata s ''A'' \<noteq> None"
    and s3: "fst (deactivate_addon ''A'' s) = Inr True" and s4: "active_addons s ''A'' \<noteq> None"
    and s5: "fst (reload_addon example_host ''A'' s) = Inr True"
    unfolding s_def by (simp_all add: example_defs manager_defs)
  have t1: "loaded_addons t ''stubborn'' \<noteq> None" and t2: "addon_metadata t ''stubborn'' \<noteq> None"
    and t3: "active_addons t ''stubborn'' = None"
    and t4: "loaded_addons (snd (reload_addon example_host ''stubborn'' t)) ''stubborn'' = None"
    unfolding t_def by (simp_all add: example_defs manager_defs)
  note a = reload_after_clean_deactivation [OF s1 s2 disjI2 [OF s3], of example_host]
  note b = reload_after_clean_deactivation [OF t1 t2 disjI1 [OF t3], of example_host]
  have a1: "loaded_addons (snd (reload_addon example_host ''A'' s)) ''A'' \<noteq> None
      \<and> active_addons (snd (reload_addon example_host ''A'' s)) ''A'' \<noteq> None"
    using a s4 s5 by blast
  have b1: "fst (reload_addon example_host ''stubborn'' t) \<noteq> Inr True
      \<and> addon_metadata (snd (reload_addon example_host ''stubborn'' t)) ''stubborn'' = None
      \<and> active_addons (snd (reload_addon example_host ''stubborn'' t)) ''stubborn'' = None"
    using b t4 by blast
  have "loaded_addons s ''A'' \<noteq> None
   \<and> addon_metadata s ''A'' \<noteq> None
   \<and> fst (deactivate_addon ''A'' s) = Inr True
   \<and> fst (reload_addon example_host ''A'' s) = Inr True
   \<and> loaded_addons (snd (reload_addon example_host ''A'' s)) ''A'' \<noteq> None
   \<and> active_addons (snd (reload_addon example_host ''A'' s)) ''A'' \<noteq> None
   \<and> loaded_addons t ''stubborn'' \<noteq> None
   \<and> addon_metadata t ''stubborn'' \<noteq> None
   \<and> active_addons t ''stubborn'' = None
   \<and> loaded_addons (snd (reload_addon example_host ''stubborn'' t)) ''stubborn'' = None
   \<and> fst (reload_addon example_host ''stubborn'' t) \<noteq> Inr True
   \<and> addon_metadata (snd (reload_addon example_host ''stubborn'' t)) ''stubborn'' = None
   \<and> active_addons (snd (reload_addon example_host ''stubborn'' t)) ''stubborn'' = None"
    using s1 s2 s3 s5 a1 t1 t2 t3 t4 b1 by blast
  then show ?thesis
    unfolding s_def t_def .
qed

end
